theory Spec2Isabelle
  imports Main "HOL-Library.Word" "HOL-Library.Signed_Division"
begin

section \<open>Data model of \<open>pkg/oc/cli/image/append/append.go\<close>\<close>

text \<open>
  The command appends layers to a container image and pushes the result. Everything the
  command does to the outside (registries, the local file system, the Go standard library)
  goes through an environment of functions; a registry call also sees the history of the
  calls made so far, so that its answer may change as the run proceeds.
\<close>

type_synonym digest = string
type_synonym int64 = "64 word"
type_synonym byte = "8 word"

text \<open>\<open>time.Time\<close> as an instant in nanoseconds since the Unix epoch. The zero
  \<open>time.Time\<close> is January 1, year 1, 00:00:00 UTC.\<close>

type_synonym Time = int

definition IsZero :: "Time \<Rightarrow> bool" where
  "IsZero t = (t = - 62135596800 * 1000000000)"

text \<open>\<open>distribution.Descriptor\<close>, \<open>manifestlist.PlatformSpec\<close> and
  \<open>manifestlist.ManifestDescriptor\<close> (which embeds a descriptor): the fields the
  command reads.\<close>

record Descriptor =
  MediaType :: string
  Digest :: digest
  Size :: int64

record PlatformSpec =
  Architecture :: string
  OS :: string
  Variant :: string

record ManifestDescriptor = Descriptor +
  Platform :: PlatformSpec

text \<open>\<open>imagereference.DockerImageReference\<close>.\<close>

record DockerImageReference =
  Registry :: string
  Namespace :: string
  Name :: string
  Tag :: string
  ID :: string

text \<open>A compiled \<open>*regexp.Regexp\<close> is kept as the pattern it was compiled from.\<close>

datatype Regexp = Regexp string

text \<open>Errors as values: one constructor for each \<open>fmt.Errorf\<close> of the file, in source
  order; \<open>ErrExternal\<close> is an error handed back unchanged from a collaborator, and
  \<open>ErrBlobUnknown\<close> is \<open>distribution.ErrBlobUnknown\<close>.\<close>

datatype error =
    ErrBlobUnknown
  | ErrExternal string
  | ErrFilterNotRegexp error
  | ErrInvalidArgument error
  | ErrIsDirectory string
  | ErrCreatedAt
  | ErrFromNoTagOrID
  | ErrToByID
  | ErrFilteredAll
  | ErrConfigMediaType string
  | ErrFindManifest error
  | ErrParseManifest error
  | ErrNoHistory
  | ErrManifestType
  | ErrPatchImage error
  | ErrPatchMeta error
  | ErrAccessForContentID digest error
  | ErrCalculateContentID digest error
  | ErrAccessSource digest error
  | ErrUploadLayer digest error
  | ErrCopyLayer digest error
  | ErrUploadFailed digest error
  | ErrDifferentDigest digest digest
  | ErrUploadManifest error
  | ErrConvertSchema error

text \<open>The outcome of a Go call that may return an error or panic.\<close>

datatype 'a result = Ok 'a | Err error | Panic string

record AppendImageOptions =
  From :: string
  To :: string
  LayerFiles :: "string list"
  ConfigPatch :: string
  MetaPatch :: string
  DropHistory :: bool
  CreatedAt :: string
  OSFilter :: "Regexp option"
  DefaultOSFilter :: bool
  FilterByOS :: string
  MaxPerRegistry :: int
  DryRun :: bool
  Insecure :: bool
  Force :: bool

text \<open>The host: the Go runtime constants, the standard library and the local file system,
  as far as \<open>Complete\<close> and the start of \<open>Run\<close> use them.\<close>

record host =
  GOOS :: string
  GOARCH :: string
  regexpCompile :: "string \<Rightarrow> error + Regexp"
  MatchString :: "Regexp \<Rightarrow> string \<Rightarrow> bool"
  osStatIsDir :: "string \<Rightarrow> error + bool"
  parseRFC3339 :: "string \<Rightarrow> error + Time"
  timeNow :: Time

section \<open>\<open>NewAppendImageOptions\<close>, \<open>Complete\<close>, \<open>includeDescriptor\<close>\<close>

definition NewAppendImageOptions :: AppendImageOptions where
  "NewAppendImageOptions =
     \<lparr>From = [], To = [], LayerFiles = [], ConfigPatch = [], MetaPatch = [],
      DropHistory = False, CreatedAt = [], OSFilter = None, DefaultOSFilter = False,
      FilterByOS = [], MaxPerRegistry = 3, DryRun = False, Insecure = False, Force = False\<rparr>"

text \<open>\<open>regexp.QuoteMeta\<close>: a backslash before each of the bytes
  \<^verbatim>\<open>\.+*?()|[]{}^$\<close>.\<close>

definition specialBytes :: "char list" where
  "specialBytes = CHR 0x5C # ''.+*?()|[]{}^$''"

fun QuoteMeta :: "string \<Rightarrow> string" where
  "QuoteMeta [] = []"
| "QuoteMeta (c # cs) =
     (if c \<in> set specialBytes then CHR 0x5C # c # QuoteMeta cs else c # QuoteMeta cs)"

text \<open>The loop of \<open>Complete\<close> over the positional arguments: each must exist and must
  not be a directory.\<close>

fun checkArgs :: "host \<Rightarrow> string list \<Rightarrow> error option" where
  "checkArgs h [] = None"
| "checkArgs h (arg # args) =
     (case osStatIsDir h arg of
        Inl err \<Rightarrow> Some (ErrInvalidArgument err)
      | Inr isDir \<Rightarrow> if isDir then Some (ErrIsDirectory arg) else checkArgs h args)"

text \<open>\<open>Complete\<close>. \<open>changed\<close> is \<open>cmd.Flags().Changed("filter-by-os")\<close>. The options
  are updated in place, so the fields written before an error return stay written.\<close>

definition Complete ::
  "host \<Rightarrow> bool \<Rightarrow> string list \<Rightarrow> AppendImageOptions \<Rightarrow> error option \<times> AppendImageOptions"
where
  "Complete h changed args o0 =
     (let pattern0 = FilterByOS o0;
          isDefault = (length pattern0 = 0 \<and> \<not> changed);
          o1 = (if isDefault then o0\<lparr>DefaultOSFilter := True\<rparr> else o0);
          pattern = (if isDefault then QuoteMeta (GOOS h @ ''/'' @ GOARCH h) else pattern0)
      in if length pattern > 0 then
           (case regexpCompile h pattern of
              Inl err \<Rightarrow> (Some (ErrFilterNotRegexp err), o1)
            | Inr re \<Rightarrow>
                (let o2 = o1\<lparr>OSFilter := Some re\<rparr>
                 in case checkArgs h args of
                      Some err \<Rightarrow> (Some err, o2)
                    | None \<Rightarrow> (None, o2\<lparr>LayerFiles := args\<rparr>)))
         else
           (case checkArgs h args of
              Some err \<Rightarrow> (Some err, o1)
            | None \<Rightarrow> (None, o1\<lparr>LayerFiles := args\<rparr>)))"

text \<open>The string \<open>includeDescriptor\<close> hands to the filter: \<open>os/arch\<close>, or
  \<open>os/arch/variant\<close> when the variant is not empty.\<close>

definition platformString :: "PlatformSpec \<Rightarrow> string" where
  "platformString p =
     (if length (Variant p) > 0 then OS p @ ''/'' @ Architecture p @ ''/'' @ Variant p
      else OS p @ ''/'' @ Architecture p)"

definition includeDescriptor ::
  "host \<Rightarrow> AppendImageOptions \<Rightarrow> ManifestDescriptor \<Rightarrow> bool \<Rightarrow> bool"
where
  "includeDescriptor h opts d hasMultiple =
     (case OSFilter opts of
        None \<Rightarrow> True
      | Some re \<Rightarrow>
          if DefaultOSFilter opts \<and> \<not> hasMultiple then True
          else if length (Variant (Platform d)) > 0 then
            MatchString h re
              (OS (Platform d) @ ''/'' @ Architecture (Platform d) @ ''/'' @ Variant (Platform d))
          else MatchString h re (OS (Platform d) @ ''/'' @ Architecture (Platform d)))"


section \<open>\<open>scratchRepo\<close>\<close>

text \<open>Modelled from the spec: the declarations of \<open>docker10.DockerImageConfig\<close>,
  \<open>docker10.DockerConfig\<close> and \<open>docker10.DockerConfigRootFS\<close> are missing; the spec's
  Image Config lists the creation timestamp, the optional runtime config, the build-time
  config, the history, the root-filesystem descriptor with its content-digest list, and
  the OS and architecture. The fields are those \<open>Run\<close> reads or writes; \<open>Settings\<close> and
  \<open>Legacy\<close> stand for the remaining ones. A Go pointer field is an option.\<close>

record DockerConfig =
  Image :: string
  Settings :: string

record DockerConfigRootFS =
  Type :: string
  DiffIDs :: "string list"

record DockerImageConfig =
  Created :: Time
  Config :: "DockerConfig option"
  ContainerConfig :: DockerConfig
  History :: "string list"
  Container :: string
  DockerVersion :: string
  RootFS :: "DockerConfigRootFS option"
  ImageSize :: int64
  ImageOS :: string
  ImageArchitecture :: string
  Legacy :: string

definition zeroDockerConfig :: DockerConfig where
  "zeroDockerConfig = \<lparr>Image = [], Settings = []\<rparr>"

definition zeroTime :: Time where
  "zeroTime = - 62135596800 * 1000000000"

definition zeroImageConfig :: DockerImageConfig where
  "zeroImageConfig =
     \<lparr>Created = zeroTime, Config = None, ContainerConfig = zeroDockerConfig, History = [],
      Container = [], DockerVersion = [], RootFS = None, ImageSize = 0, ImageOS = [],
      ImageArchitecture = [], Legacy = []\<rparr>"

text \<open>\<open>docker10.DockerV1CompatibilityImage\<close>, of which \<open>Run\<close> reads no field.\<close>

datatype DockerV1CompatibilityImage = V1Image string

text \<open>Packages of the repository that are not part of the file, as parameters of the model:
  the two constants of \<open>dockerlayer\<close>, the config helpers of \<open>dockerlayer/add\<close>
  (a helper that updates the config in place returns the updated config), the conversion of
  \<open>docker10\<close> and the parser of \<open>imagereference\<close>.\<close>

record pkgs =
  GzippedEmptyLayerDigest :: digest
  GzippedEmptyLayer :: "byte list"
  NewEmptyConfig :: DockerImageConfig
  AddScratchLayerToConfig :: "DockerImageConfig \<Rightarrow> Descriptor \<times> DockerImageConfig"
  AddLayerToConfig :: "DockerImageConfig \<Rightarrow> Descriptor \<Rightarrow> string \<Rightarrow> DockerImageConfig"
  Convert_V1_to_Config ::
    "DockerV1CompatibilityImage option \<Rightarrow> DockerImageConfig \<Rightarrow> error + DockerImageConfig"
  parseReference :: "string \<Rightarrow> error + DockerImageReference"

text \<open>What \<open>Open\<close> returns: the \<open>nopCloseBuffer\<close> of the file over a byte slice, or a
  stream handed out by a collaborator (an \<open>*os.File\<close>, the body of a registry
  response).\<close>

datatype reader = nopCloseBuffer "byte list" | Stream string

text \<open>The methods of \<open>scratchRepo\<close>. \<open>Blobs\<close> returns the repository itself, which
  is its own blob store.\<close>

definition scratchRepo_Named :: "string result" where
  "scratchRepo_Named = Panic ''not implemented''"

definition scratchRepo_Tags :: "unit result" where
  "scratchRepo_Tags = Panic ''not implemented''"

definition scratchRepo_Manifests :: "unit result" where
  "scratchRepo_Manifests = Panic ''not implemented''"

definition scratchRepo_Stat :: "pkgs \<Rightarrow> digest \<Rightarrow> Descriptor result" where
  "scratchRepo_Stat p dgst =
     (if dgst \<noteq> GzippedEmptyLayerDigest p then Err ErrBlobUnknown
      else Ok \<lparr>MediaType = ''application/vnd.docker.image.rootfs.diff.tar.gzip'',
               Digest = GzippedEmptyLayerDigest p,
               Size = of_nat (length (GzippedEmptyLayer p))\<rparr>)"

definition scratchRepo_Get :: "pkgs \<Rightarrow> digest \<Rightarrow> (byte list) result" where
  "scratchRepo_Get p dgst =
     (if dgst \<noteq> GzippedEmptyLayerDigest p then Err ErrBlobUnknown
      else Ok (GzippedEmptyLayer p))"

definition scratchRepo_Open :: "pkgs \<Rightarrow> digest \<Rightarrow> reader result" where
  "scratchRepo_Open p dgst =
     (if dgst \<noteq> GzippedEmptyLayerDigest p then Err ErrBlobUnknown
      else Ok (nopCloseBuffer (GzippedEmptyLayer p)))"

definition scratchRepo_Put :: "string \<Rightarrow> byte list \<Rightarrow> Descriptor result" where
  "scratchRepo_Put mediaType bs = Panic ''not implemented''"

definition scratchRepo_Create :: "unit result" where
  "scratchRepo_Create = Panic ''not implemented''"

definition scratchRepo_Resume :: "string \<Rightarrow> unit result" where
  "scratchRepo_Resume ident = Panic ''not implemented''"

definition scratchRepo_ServeBlob :: "digest \<Rightarrow> unit result" where
  "scratchRepo_ServeBlob dgst = Panic ''not implemented''"

definition scratchRepo_Delete :: "digest \<Rightarrow> unit result" where
  "scratchRepo_Delete dgst = Panic ''not implemented''"

section \<open>The creation timestamp and the references\<close>

text \<open>\<open>strconv.ParseInt(s, 10, 64)\<close>: an optional sign, then decimal digits only; a value
  outside the 64-bit range is an error. Only \<open>err == nil\<close> is tested by the caller, so the
  error is \<open>None\<close>.\<close>

definition isDigit :: "char \<Rightarrow> bool" where
  "isDigit c = (c \<in> set ''0123456789'')"

fun parseDigits :: "int \<Rightarrow> string \<Rightarrow> int option" where
  "parseDigits acc [] = Some acc"
| "parseDigits acc (c # cs) =
     (if isDigit c then parseDigits (acc * 10 + (of_char c - 48)) cs else None)"

definition ParseUint :: "string \<Rightarrow> int option" where
  "ParseUint s =
     (if s = [] then None
      else case parseDigits 0 s of
             None \<Rightarrow> None
           | Some v \<Rightarrow> if v < 2 ^ 64 then Some v else None)"

definition ParseInt :: "string \<Rightarrow> int option" where
  "ParseInt s =
     (if s = [] then None
      else
        (let neg = (hd s = CHR ''-'');
             s' = (if hd s = CHR ''+'' \<or> hd s = CHR ''-'' then tl s else s)
         in case ParseUint s' of
              None \<Rightarrow> None
            | Some un \<Rightarrow>
                if \<not> neg \<and> un \<ge> 2 ^ 63 then None
                else if neg \<and> un > 2 ^ 63 then None
                else Some (if neg then - un else un)))"

text \<open>\<open>time.Unix(sec, nsec)\<close>: the instant \<open>nsec\<close> nanoseconds after second \<open>sec\<close>.\<close>

definition Unix :: "int \<Rightarrow> int \<Rightarrow> Time" where
  "Unix sec nsec = sec * 1000000000 + nsec"

text \<open>Lines 193-205. Go's \<open>/\<close> and \<open>%\<close> truncate towards zero (\<open>sdiv\<close>, \<open>smod\<close>).\<close>

definition parseCreatedAt :: "host \<Rightarrow> AppendImageOptions \<Rightarrow> error + Time option" where
  "parseCreatedAt h opts =
     (if length (CreatedAt opts) > 0 then
        (case ParseInt (CreatedAt opts) of
           Some d \<Rightarrow> Inr (Some (Unix (d sdiv 1000) ((d smod 1000) * 1000000)))
         | None \<Rightarrow>
             (case parseRFC3339 h (CreatedAt opts) of
                Inl err \<Rightarrow> Inl ErrCreatedAt
              | Inr t \<Rightarrow> Inr (Some t)))
      else Inr None)"

text \<open>Lines 207-224: the source reference, when given, needs a tag or an ID; the
  destination reference must not have an ID.\<close>

definition parseFrom :: "pkgs \<Rightarrow> AppendImageOptions \<Rightarrow> error + DockerImageReference option"
where
  "parseFrom p opts =
     (if length (From opts) > 0 then
        (case parseReference p (From opts) of
           Inl err \<Rightarrow> Inl err
         | Inr src \<Rightarrow>
             if length (Tag src) = 0 \<and> length (ID src) = 0 then Inl ErrFromNoTagOrID
             else Inr (Some src))
      else Inr None)"

definition parseTo :: "pkgs \<Rightarrow> AppendImageOptions \<Rightarrow> error + DockerImageReference" where
  "parseTo p opts =
     (case parseReference p (To opts) of
        Inl err \<Rightarrow> Inl err
      | Inr to \<Rightarrow> if length (ID to) > 0 then Inl ErrToByID else Inr to)"

section \<open>Registries\<close>

datatype side = Source | Destination

text \<open>Which loop issued a call on the destination blob store: the sequential loop over the
  local layer files, or a transfer task of an inherited layer.\<close>

datatype origin = Appended | Inherited

type_synonym BlobWriter = nat

datatype sink = Discard | Writer BlobWriter

text \<open>The two create options of the file: \<open>WithDescriptor\<close> (defined in it) and
  \<open>client.WithMountFrom\<close>.\<close>

datatype BlobCreateOption = WithDescriptor Descriptor | WithMountFrom string

text \<open>The manifests \<open>Run\<close> tells apart in its type switch: \<open>*schema2.DeserializedManifest\<close>
  (config, layers), \<open>*schema1.SignedManifest\<close> (the \<open>V1Compatibility\<close> strings of its
  history, the blob sums of its \<open>FSLayers\<close>), and anything else.\<close>

datatype Manifest =
    Schema2Manifest Descriptor "Descriptor list"
  | Schema1Manifest "string list" "digest list"
  | OtherManifest string

text \<open>The five values \<open>add.DigestCopy\<close> returns.\<close>

record copied =
  copyLayerDigest :: digest
  copyBlobDigest :: digest
  copyModTime :: "Time option"
  copySize :: int64
  copyErr :: "error option"

text \<open>The calls that reach a registry, with what they returned where a later step depends
  on it. The deferred \<open>Close\<close> of a reader or of a blob writer is not recorded.\<close>

datatype event =
    EvRepository side DockerImageReference
  | EvManifests side
  | EvTagsGet string
  | EvManifestsGet digest
  | EvProcessManifestList digest
  | EvBlobsGet digest
  | EvStat digest "error + Descriptor"
  | EvOpen digest
  | EvCreate origin "BlobCreateOption list" "error + BlobWriter"
  | EvDigestCopy origin sink reader copied
  | EvReadFrom BlobWriter reader
  | EvCommit origin BlobWriter Descriptor "error + Descriptor"
  | EvPutConfig DockerImageConfig "error + Descriptor"
  | EvPutManifest Manifest string "error + digest"

text \<open>The registries and the functions that talk to them. Each takes the calls made so
  far. \<open>processManifestList\<close>, \<open>add.DigestCopy\<close> and \<open>putManifestInCompatibleSchema\<close>
  belong to the repository but not to the file; they are parameters here, like the
  registry client.\<close>

record registry =
  Repository :: "event list \<Rightarrow> side \<Rightarrow> DockerImageReference \<Rightarrow> bool \<Rightarrow> error option"
  Manifests :: "event list \<Rightarrow> side \<Rightarrow> error option"
  TagsGet :: "event list \<Rightarrow> string \<Rightarrow> error + digest"
  ManifestsGet :: "event list \<Rightarrow> digest \<Rightarrow> error + Manifest"
  processManifestList ::
    "event list \<Rightarrow> digest \<Rightarrow> Manifest \<Rightarrow> DockerImageReference \<Rightarrow>
       (ManifestDescriptor \<Rightarrow> bool \<Rightarrow> bool) \<Rightarrow> error + (Manifest list \<times> Manifest \<times> digest)"
  BlobsGet :: "event list \<Rightarrow> digest \<Rightarrow> error + string"
  Stat :: "event list \<Rightarrow> digest \<Rightarrow> error + Descriptor"
  Open :: "event list \<Rightarrow> digest \<Rightarrow> error + reader"
  Create :: "event list \<Rightarrow> BlobCreateOption list \<Rightarrow> error + BlobWriter"
  DigestCopy :: "event list \<Rightarrow> sink \<Rightarrow> reader \<Rightarrow> copied"
  ReadFrom :: "event list \<Rightarrow> BlobWriter \<Rightarrow> reader \<Rightarrow> error option"
  Commit :: "event list \<Rightarrow> BlobWriter \<Rightarrow> Descriptor \<Rightarrow> error + Descriptor"
  PutConfig :: "event list \<Rightarrow> DockerImageConfig \<Rightarrow> error + Descriptor"
  putManifestInCompatibleSchema :: "event list \<Rightarrow> Manifest \<Rightarrow> string \<Rightarrow> error + digest"

text \<open>The rest of the standard library and of the machine that \<open>Run\<close> uses.\<close>

record local =
  TransportFor :: "bool \<Rightarrow> error option"
  osOpen :: "string \<Rightarrow> error + reader"
  unmarshalConfig :: "string \<Rightarrow> error + DockerImageConfig option"
  unmarshalV1 :: "string \<Rightarrow> error + DockerV1CompatibilityImage option"
  patchImage :: "string \<Rightarrow> DockerConfig \<Rightarrow> error + DockerConfig"
  patchMeta :: "string \<Rightarrow> DockerImageConfig \<Rightarrow> error + DockerImageConfig"
  MarshalIndent :: "DockerImageConfig \<Rightarrow> string"
  repoNamed :: "DockerImageReference \<Rightarrow> string"
  WithDigest :: "string \<Rightarrow> digest \<Rightarrow> error + string"

text \<open>What the command writes to \<open>o.Out\<close>.\<close>

datatype outline =
    OutUploading
  | OutFailed
  | OutRate Descriptor
  | OutUploadingSize int64
  | OutUploadingUnknown
  | OutConfigJSON string
  | OutPushed digest DockerImageReference

text \<open>The source repository of the run: the remote one of \<open>--from\<close>, or
  \<open>scratchRepo\<close>.\<close>

datatype fromRepository = remoteRepo DockerImageReference | scratchRepo

definition MediaTypeLayer :: string where
  "MediaTypeLayer = ''application/vnd.docker.image.rootfs.diff.tar.gzip''"

definition MediaTypeImageConfig :: string where
  "MediaTypeImageConfig = ''application/vnd.docker.container.image.v1+json''"

section \<open>\<open>Run\<close>: connecting and loading the base image\<close>

text \<open>Lines 226-246: the two transports, the destination repository and its manifest
  service. A registry function is asked on the calls made before its own.\<close>

definition connect ::
  "local \<Rightarrow> registry \<Rightarrow> AppendImageOptions \<Rightarrow> DockerImageReference \<Rightarrow> event list \<Rightarrow>
     error option \<times> event list"
where
  "connect l w opts to lg =
     (case TransportFor l False of
        Some err \<Rightarrow> (Some err, lg)
      | None \<Rightarrow>
     (case TransportFor l True of
        Some err \<Rightarrow> (Some err, lg)
      | None \<Rightarrow>
     (case Repository w lg Destination to (Insecure opts) of
        Some err \<Rightarrow> (Some err, lg @ [EvRepository Destination to])
      | None \<Rightarrow>
     (case Manifests w (lg @ [EvRepository Destination to]) Destination of
        Some err \<Rightarrow> (Some err, lg @ [EvRepository Destination to, EvManifests Destination])
      | None \<Rightarrow> (None, lg @ [EvRepository Destination to, EvManifests Destination])))))"

text \<open>Lines 259-268: the digest of the source manifest, from the tag or from the ID.\<close>

definition sourceDigest ::
  "registry \<Rightarrow> DockerImageReference \<Rightarrow> event list \<Rightarrow> (error + digest) \<times> event list"
where
  "sourceDigest w fr lg =
     (if length (Tag fr) > 0 then (TagsGet w lg (Tag fr), lg @ [EvTagsGet (Tag fr)])
      else (Inr (ID fr), lg))"

text \<open>Lines 254-285: the source repository, the manifest, and the choice made by
  \<open>processManifestList\<close> with \<open>includeDescriptor\<close> as its filter.\<close>

definition resolveSource ::
  "host \<Rightarrow> registry \<Rightarrow> AppendImageOptions \<Rightarrow> DockerImageReference \<Rightarrow> event list \<Rightarrow>
     (error + Manifest) \<times> event list"
where
  "resolveSource h w opts fr lg =
     (case Repository w lg Source fr (Insecure opts) of
        Some err \<Rightarrow> (Inl err, lg @ [EvRepository Source fr])
      | None \<Rightarrow>
     (case sourceDigest w fr (lg @ [EvRepository Source fr]) of
        (Inl err, lg1) \<Rightarrow> (Inl err, lg1)
      | (Inr srcDigest, lg1) \<Rightarrow>
     (case Manifests w lg1 Source of
        Some err \<Rightarrow> (Inl err, lg1 @ [EvManifests Source])
      | None \<Rightarrow>
     (case ManifestsGet w (lg1 @ [EvManifests Source]) srcDigest of
        Inl err \<Rightarrow> (Inl err, lg1 @ [EvManifests Source, EvManifestsGet srcDigest])
      | Inr srcManifest \<Rightarrow>
     (case processManifestList w (lg1 @ [EvManifests Source, EvManifestsGet srcDigest])
             srcDigest srcManifest fr (includeDescriptor h opts) of
        Inl err \<Rightarrow>
          (Inl err,
           lg1 @ [EvManifests Source, EvManifestsGet srcDigest, EvProcessManifestList srcDigest])
      | Inr (srcManifests, chosen, chosenDigest) \<Rightarrow>
          (if length srcManifests = 0 then Inl ErrFilteredAll else Inr chosen,
           lg1 @ [EvManifests Source, EvManifestsGet srcDigest,
                  EvProcessManifestList srcDigest]))))))"

text \<open>Lines 295-314, the modern manifest: its config blob is fetched and parsed, the layers
  are the manifest's, and \<open>Size\<close> is their sum (64-bit, wrapping).\<close>

definition loadSchema2 ::
  "local \<Rightarrow> registry \<Rightarrow> Descriptor \<Rightarrow> Descriptor list \<Rightarrow> event list \<Rightarrow>
     (DockerImageConfig \<times> Descriptor list) result \<times> event list"
where
  "loadSchema2 l w cfg ls lg =
     (if MediaType cfg \<noteq> MediaTypeImageConfig then (Err (ErrConfigMediaType (MediaType cfg)), lg)
      else
        (case BlobsGet w lg (Digest cfg) of
           Inl err \<Rightarrow> (Err (ErrFindManifest err), lg @ [EvBlobsGet (Digest cfg)])
         | Inr configJSON \<Rightarrow>
             (case unmarshalConfig l configJSON of
                Inl err \<Rightarrow> (Err (ErrParseManifest err), lg @ [EvBlobsGet (Digest cfg)])
              | Inr None \<Rightarrow> (Panic ''nil pointer dereference'', lg @ [EvBlobsGet (Digest cfg)])
              | Inr (Some config) \<Rightarrow>
                  (Ok (config\<lparr>ImageSize := foldl (\<lambda>a layer. a + Size layer) 0 ls\<rparr>, ls),
                   lg @ [EvBlobsGet (Digest cfg)]))))"

text \<open>Lines 334-345, the loop \<open>for i := len(t.FSLayers) - 1; i >= 0; i--\<close>; the counter
  of the model is \<open>i + 1\<close>.\<close>

fun schema1Layers ::
  "pkgs \<Rightarrow> digest list \<Rightarrow> nat \<Rightarrow> DockerImageConfig \<Rightarrow> Descriptor list \<Rightarrow>
     DockerImageConfig \<times> Descriptor list"
where
  "schema1Layers p fs 0 b ls = (b, ls)"
| "schema1Layers p fs (Suc i) b ls =
     (let layer = \<lparr>MediaType = MediaTypeLayer, Digest = fs ! i, Size = 0\<rparr>
      in schema1Layers p fs i (AddLayerToConfig p b layer []) (ls @ [layer]))"

text \<open>Lines 316-345, the legacy signed manifest.\<close>

definition loadSchema1 ::
  "local \<Rightarrow> pkgs \<Rightarrow> string list \<Rightarrow> digest list \<Rightarrow> (DockerImageConfig \<times> Descriptor list) result"
where
  "loadSchema1 l p hist fs =
     (if length hist = 0 then Err ErrNoHistory
      else
        (case unmarshalV1 l (hd hist) of
           Inl err \<Rightarrow> Err err
         | Inr config \<Rightarrow>
             (case Convert_V1_to_Config p config zeroImageConfig of
                Inl err \<Rightarrow> Err err
              | Inr b \<Rightarrow> Ok (schema1Layers p fs (length fs) b []))))"

text \<open>Lines 248-354: the base config, the inherited layers and the source repository.\<close>

definition loadBase ::
  "host \<Rightarrow> local \<Rightarrow> pkgs \<Rightarrow> registry \<Rightarrow> AppendImageOptions \<Rightarrow> DockerImageReference option \<Rightarrow>
     event list \<Rightarrow> (DockerImageConfig \<times> Descriptor list \<times> fromRepository) result \<times> event list"
where
  "loadBase h l p w opts from lg =
     (case from of
        None \<Rightarrow>
          (case AddScratchLayerToConfig p (NewEmptyConfig p) of
             (layer, b) \<Rightarrow> (Ok (b, [layer], scratchRepo), lg))
      | Some fr \<Rightarrow>
          (case resolveSource h w opts fr lg of
             (Inl err, lg1) \<Rightarrow> (Err err, lg1)
           | (Inr (Schema2Manifest cfg ls), lg1) \<Rightarrow>
               (case loadSchema2 l w cfg ls lg1 of
                  (Ok (b, ls'), lg2) \<Rightarrow> (Ok (b, ls', remoteRepo fr), lg2)
                | (Err err, lg2) \<Rightarrow> (Err err, lg2)
                | (Panic m, lg2) \<Rightarrow> (Panic m, lg2))
           | (Inr (Schema1Manifest hist fs), lg1) \<Rightarrow>
               (case loadSchema1 l p hist fs of
                  Ok (b, ls') \<Rightarrow> (Ok (b, ls', remoteRepo fr), lg1)
                | Err err \<Rightarrow> (Err err, lg1)
                | Panic m \<Rightarrow> (Panic m, lg1))
           | (Inr (OtherManifest t), lg1) \<Rightarrow> (Err ErrManifestType, lg1)))"

text \<open>Lines 356-387: the runtime config is made present, \<open>Created\<close> is set from
  \<open>--created-at\<close> or from the clock, \<open>--drop-history\<close> clears the build fields, and the
  two JSON patches are applied.\<close>

definition patchConfig ::
  "local \<Rightarrow> AppendImageOptions \<Rightarrow> DockerImageConfig \<Rightarrow> error + DockerImageConfig"
where
  "patchConfig l opts b =
     (if length (ConfigPatch opts) > 0 then
        (case Config b of
           None \<Rightarrow> Inl (ErrPatchImage (ErrExternal ''json: Unmarshal(nil)''))
         | Some c \<Rightarrow>
             (case patchImage l (ConfigPatch opts) c of
                Inl err \<Rightarrow> Inl (ErrPatchImage err)
              | Inr c' \<Rightarrow> Inr (b\<lparr>Config := Some c'\<rparr>)))
      else Inr b)"

definition configure ::
  "host \<Rightarrow> local \<Rightarrow> AppendImageOptions \<Rightarrow> Time option \<Rightarrow> DockerImageConfig \<Rightarrow>
     error + DockerImageConfig"
where
  "configure h l opts createdAt b0 =
     (let b1 = (if Config b0 = None then b0\<lparr>Config := Some zeroDockerConfig\<rparr> else b0);
          b2 = b1\<lparr>Created := (case createdAt of None \<Rightarrow> timeNow h | Some t \<Rightarrow> t)\<rparr>;
          b3 = (if DropHistory opts then
                  b2\<lparr>ContainerConfig := zeroDockerConfig, History := [], Container := [],
                     DockerVersion := [],
                     Config := map_option (\<lambda>c. c\<lparr>Image := []\<rparr>) (Config b2)\<rparr>
                else b2)
      in case patchConfig l opts b3 of
           Inl err \<Rightarrow> Inl err
         | Inr b4 \<Rightarrow>
             if length (MetaPatch opts) > 0 then
               (case patchMeta l (MetaPatch opts) b4 of
                  Inl err \<Rightarrow> Inl (ErrPatchMeta err)
                | Inr b5 \<Rightarrow> Inr b5)
             else Inr b4)"

section \<open>\<open>Run\<close>: the local layers\<close>

text \<open>The variables of \<open>Run\<close> that its loops update, with the registry calls made and the
  lines written so far.\<close>

record state =
  trace :: "event list"
  printed :: "outline list"
  base :: DockerImageConfig
  layers :: "Descriptor list"

text \<open>Lines 421-431: the file is read once through \<open>add.DigestCopy\<close> into the sink; its
  descriptor joins \<open>layers\<close> and the config, and a modification time that is present and
  not zero becomes \<open>Created\<close>. The error \<open>DigestCopy\<close> returns is assigned and never
  read.\<close>

definition digestLayer ::
  "pkgs \<Rightarrow> registry \<Rightarrow> sink \<Rightarrow> reader \<Rightarrow> state \<Rightarrow> Descriptor \<times> state"
where
  "digestLayer p w snk f st =
     (let c = DigestCopy w (trace st) snk f;
          desc = \<lparr>MediaType = MediaTypeLayer, Digest = copyBlobDigest c, Size = copySize c\<rparr>;
          b1 = AddLayerToConfig p (base st) desc (copyLayerDigest c);
          b2 = (case copyModTime c of
                  None \<Rightarrow> b1
                | Some t \<Rightarrow> if \<not> IsZero t then b1\<lparr>Created := t\<rparr> else b1)
      in (desc, st\<lparr>trace := trace st @ [EvDigestCopy Appended snk f c],
                    layers := layers st @ [desc], base := b2\<rparr>))"

text \<open>Lines 393-433, the body of the loop over \<open>o.LayerFiles\<close>.\<close>

definition appendLayer ::
  "local \<Rightarrow> pkgs \<Rightarrow> registry \<Rightarrow> AppendImageOptions \<Rightarrow> string \<Rightarrow> state \<Rightarrow> error option \<times> state"
where
  "appendLayer l p w opts arg st =
     (case osOpen l arg of
        Inl err \<Rightarrow> (Some err, st)
      | Inr f \<Rightarrow>
          if \<not> DryRun opts then
            (let st1 = st\<lparr>printed := printed st @ [OutUploading]\<rparr>;
                 created = Create w (trace st1) [];
                 st2 = st1\<lparr>trace := trace st1 @ [EvCreate Appended [] created]\<rparr>
             in case created of
                  Inl err \<Rightarrow> (Some err, st2\<lparr>printed := printed st2 @ [OutFailed]\<rparr>)
                | Inr bw \<Rightarrow>
                    (case digestLayer p w (Writer bw) f st2 of
                       (desc, st3) \<Rightarrow>
                         (let committed = Commit w (trace st3) bw desc;
                              st4 = st3\<lparr>trace := trace st3 @ [EvCommit Appended bw desc committed]\<rparr>
                          in case committed of
                               Inl err \<Rightarrow> (Some err, st4\<lparr>printed := printed st4 @ [OutFailed]\<rparr>)
                             | Inr d \<Rightarrow> (None, st4\<lparr>printed := printed st4 @ [OutRate desc]\<rparr>))))
          else (None, snd (digestLayer p w Discard f st)))"

text \<open>Lines 392-437: the loop stops at the first error.\<close>

fun appendLayers ::
  "local \<Rightarrow> pkgs \<Rightarrow> registry \<Rightarrow> AppendImageOptions \<Rightarrow> string list \<Rightarrow> state \<Rightarrow>
     error option \<times> state"
where
  "appendLayers l p w opts [] st = (None, st)"
| "appendLayers l p w opts (arg # args) st =
     (case appendLayer l p w opts arg st of
        (Some err, st') \<Rightarrow> (Some err, st')
      | (None, st') \<Rightarrow> appendLayers l p w opts args st')"

section \<open>\<open>Run\<close>: the transfer of the inherited layers\<close>

text \<open>\<open>fromRepo.Blobs(ctx).Open\<close> and \<open>fromRepo.Named()\<close>, on either source
  repository.\<close>

definition fromBlobsOpen ::
  "pkgs \<Rightarrow> registry \<Rightarrow> fromRepository \<Rightarrow> digest \<Rightarrow> event list \<Rightarrow> reader result \<times> event list"
where
  "fromBlobsOpen p w repo dgst lg =
     (case repo of
        scratchRepo \<Rightarrow> (scratchRepo_Open p dgst, lg)
      | remoteRepo fr \<Rightarrow>
          (case Open w lg dgst of Inl err \<Rightarrow> Err err | Inr r \<Rightarrow> Ok r, lg @ [EvOpen dgst]))"

definition fromRepoNamed :: "local \<Rightarrow> fromRepository \<Rightarrow> string result" where
  "fromRepoNamed l repo =
     (case repo of scratchRepo \<Rightarrow> scratchRepo_Named | remoteRepo fr \<Rightarrow> Ok (repoNamed l fr))"

text \<open>Line 453, \<open>len(base.RootFS.DiffIDs[i]) == 0\<close>, and lines 478 and 523,
  \<open>base.RootFS.DiffIDs[index] = ...\<close>: a nil \<open>RootFS\<close> or an index outside the list is
  a panic.\<close>

definition missingDiffID :: "DockerImageConfig \<Rightarrow> nat \<Rightarrow> bool result" where
  "missingDiffID b i =
     (case RootFS b of
        None \<Rightarrow> Panic ''nil pointer dereference''
      | Some r \<Rightarrow>
          if i < length (DiffIDs r) then Ok (length (DiffIDs r ! i) = 0)
          else Panic ''index out of range'')"

definition setDiffID :: "nat \<Rightarrow> string \<Rightarrow> DockerImageConfig \<Rightarrow> DockerImageConfig result" where
  "setDiffID i v b =
     (case RootFS b of
        None \<Rightarrow> Panic ''nil pointer dereference''
      | Some r \<Rightarrow>
          if i < length (DiffIDs r) then Ok (b\<lparr>RootFS := Some (r\<lparr>DiffIDs := (DiffIDs r)[i := v]\<rparr>)\<rparr>)
          else Panic ''index out of range'')"

text \<open>Lines 462-464 and 539-541: a size of zero is replaced by the size the registry
  reported.\<close>

definition patchSize :: "nat \<Rightarrow> Descriptor \<Rightarrow> state \<Rightarrow> state" where
  "patchSize i desc st =
     (if Size (layers st ! i) = 0
      then st\<lparr>layers := (layers st)[i := (layers st ! i)\<lparr>Size := Size desc\<rparr>]\<rparr>
      else st)"

text \<open>Lines 466-479: the content digest of a layer that is already at the destination is
  computed by reading the source blob into the discard sink.\<close>

definition contentID ::
  "pkgs \<Rightarrow> registry \<Rightarrow> fromRepository \<Rightarrow> nat \<Rightarrow> state \<Rightarrow> unit result \<times> state"
where
  "contentID p w repo i st =
     (case fromBlobsOpen p w repo (Digest (layers st ! i)) (trace st) of
        (Err err, lg) \<Rightarrow>
          (Err (ErrAccessForContentID (Digest (layers st ! i)) err), st\<lparr>trace := lg\<rparr>)
      | (Panic m, lg) \<Rightarrow> (Panic m, st\<lparr>trace := lg\<rparr>)
      | (Ok r, lg) \<Rightarrow>
          (let c = DigestCopy w lg Discard r;
               st1 = st\<lparr>trace := lg @ [EvDigestCopy Inherited Discard r c]\<rparr>
           in case copyErr c of
                Some err \<Rightarrow> (Err (ErrCalculateContentID (Digest (layers st ! i)) err), st1)
              | None \<Rightarrow>
                  (case setDiffID i (copyLayerDigest c) (base st1) of
                     Ok b \<Rightarrow> (Ok (), st1\<lparr>base := b\<rparr>)
                   | Err err \<Rightarrow> (Err err, st1)
                   | Panic m \<Rightarrow> (Panic m, st1))))"

text \<open>Lines 457-486, the check whether the blob exists. \<open>Some r\<close>: the task returns \<open>r\<close>
  here; \<open>None\<close>: it goes on to the upload.\<close>

definition skipProbe ::
  "pkgs \<Rightarrow> registry \<Rightarrow> AppendImageOptions \<Rightarrow> fromRepository \<Rightarrow> nat \<Rightarrow> bool \<Rightarrow> state \<Rightarrow>
     unit result option \<times> state"
where
  "skipProbe p w opts repo i missing st =
     (if \<not> Force opts then
        (let found = Stat w (trace st) (Digest (layers st ! i));
             st1 = st\<lparr>trace := trace st @ [EvStat (Digest (layers st ! i)) found]\<rparr>
         in case found of
              Inl err \<Rightarrow> (None, st1)
            | Inr desc \<Rightarrow>
                (case (if missing then contentID p w repo i (patchSize i desc st1)
                       else (Ok (), patchSize i desc st1)) of
                   (Err err, st2) \<Rightarrow> (Some (Err err), st2)
                 | (Panic m, st2) \<Rightarrow> (Some (Panic m), st2)
                 | (Ok u, st2) \<Rightarrow>
                     if Digest (layers st2 ! i) \<noteq> GzippedEmptyLayerDigest p
                     then (Some (Ok ()), st2)
                     else (None, st2)))
      else (None, st))"

text \<open>Lines 496-503: the create options; the mount source is added when source and
  destination are on the same registry.\<close>

definition mountOptions ::
  "local \<Rightarrow> DockerImageReference option \<Rightarrow> DockerImageReference \<Rightarrow> fromRepository \<Rightarrow>
     Descriptor \<Rightarrow> (BlobCreateOption list) result"
where
  "mountOptions l from to repo layer =
     (case from of
        None \<Rightarrow> Ok [WithDescriptor layer]
      | Some fr \<Rightarrow>
          if Registry fr = Registry to then
            (case fromRepoNamed l repo of
               Panic m \<Rightarrow> Panic m
             | Err err \<Rightarrow> Err err
             | Ok named \<Rightarrow>
                 (case WithDigest l named (Digest layer) of
                    Inl err \<Rightarrow> Err err
                  | Inr source \<Rightarrow> Ok [WithDescriptor layer, WithMountFrom source]))
          else Ok [WithDescriptor layer])"

text \<open>Lines 510-528: the copy, through \<open>add.DigestCopy\<close> when the content digest is
  missing.\<close>

definition copyBlob ::
  "registry \<Rightarrow> nat \<Rightarrow> bool \<Rightarrow> BlobWriter \<Rightarrow> reader \<Rightarrow> state \<Rightarrow> unit result \<times> state"
where
  "copyBlob w i missing bw r st =
     (if missing then
        (let c = DigestCopy w (trace st) (Writer bw) r;
             st1 = st\<lparr>trace := trace st @ [EvDigestCopy Inherited (Writer bw) r c]\<rparr>
         in case copyErr c of
              Some err \<Rightarrow> (Err err, st1)
            | None \<Rightarrow>
                (case setDiffID i (copyLayerDigest c) (base st1) of
                   Ok b \<Rightarrow> (Ok (), st1\<lparr>base := b\<rparr>)
                 | Err err \<Rightarrow> (Err err, st1)
                 | Panic m \<Rightarrow> (Panic m, st1)))
      else
        (case ReadFrom w (trace st) bw r of
           Some err \<Rightarrow>
             (Err (ErrCopyLayer (Digest (layers st ! i)) err),
              st\<lparr>trace := trace st @ [EvReadFrom bw r]\<rparr>)
         | None \<Rightarrow> (Ok (), st\<lparr>trace := trace st @ [EvReadFrom bw r]\<rparr>)))"

text \<open>Lines 529-542: the commit and the check of the digest it returns.\<close>

definition commitLayer ::
  "registry \<Rightarrow> nat \<Rightarrow> BlobWriter \<Rightarrow> state \<Rightarrow> unit result \<times> state"
where
  "commitLayer w i bw st =
     (let layer = layers st ! i;
          committed = Commit w (trace st) bw layer;
          st1 = st\<lparr>trace := trace st @ [EvCommit Inherited bw layer committed]\<rparr>
      in case committed of
           Inl err \<Rightarrow> (Err (ErrUploadFailed (Digest layer) err), st1)
         | Inr desc \<Rightarrow>
             if Digest desc \<noteq> Digest layer
             then (Err (ErrDifferentDigest (Digest desc) (Digest layer)), st1)
             else (Ok (), patchSize i desc st1))"

text \<open>Lines 488-542, the upload: source reader, blob writer at the destination, copy,
  commit.\<close>

definition uploadLayer ::
  "local \<Rightarrow> pkgs \<Rightarrow> registry \<Rightarrow> DockerImageReference option \<Rightarrow> DockerImageReference \<Rightarrow>
     fromRepository \<Rightarrow> nat \<Rightarrow> bool \<Rightarrow> state \<Rightarrow> unit result \<times> state"
where
  "uploadLayer l p w from to repo i missing st =
     (case fromBlobsOpen p w repo (Digest (layers st ! i)) (trace st) of
        (Err err, lg) \<Rightarrow> (Err (ErrAccessSource (Digest (layers st ! i)) err), st\<lparr>trace := lg\<rparr>)
      | (Panic m, lg) \<Rightarrow> (Panic m, st\<lparr>trace := lg\<rparr>)
      | (Ok r, lg) \<Rightarrow>
          (case mountOptions l from to repo (layers st ! i) of
             Err err \<Rightarrow> (Err err, st\<lparr>trace := lg\<rparr>)
           | Panic m \<Rightarrow> (Panic m, st\<lparr>trace := lg\<rparr>)
           | Ok options \<Rightarrow>
               (let created = Create w lg options;
                    st1 = st\<lparr>trace := lg @ [EvCreate Inherited options created]\<rparr>
                in case created of
                     Inl err \<Rightarrow> (Err (ErrUploadLayer (Digest (layers st ! i)) err), st1)
                   | Inr bw \<Rightarrow>
                       (case copyBlob w i missing bw r
                               (st1\<lparr>printed := printed st1 @
                                      [if 0 <s Size (layers st ! i)
                                       then OutUploadingSize (Size (layers st ! i))
                                       else OutUploadingUnknown]\<rparr>) of
                          (Ok u, st2) \<Rightarrow> commitLayer w i bw st2
                        | (Err err, st2) \<Rightarrow> (Err err, st2)
                        | (Panic m, st2) \<Rightarrow> (Panic m, st2)))))"

text \<open>Lines 454-543, the task of one inherited layer.\<close>

definition transferLayer ::
  "local \<Rightarrow> pkgs \<Rightarrow> registry \<Rightarrow> AppendImageOptions \<Rightarrow> DockerImageReference option \<Rightarrow>
     DockerImageReference \<Rightarrow> fromRepository \<Rightarrow> nat \<Rightarrow> bool \<Rightarrow> state \<Rightarrow> unit result \<times> state"
where
  "transferLayer l p w opts from to repo i missing st =
     (case skipProbe p w opts repo i missing st of
        (Some r, st1) \<Rightarrow> (r, st1)
      | (None, st1) \<Rightarrow> uploadLayer l p w from to repo i missing st1)"

text \<open>Modelled from the spec: \<open>newWorkQueue\<close> and its \<open>Try\<close> are missing. The spec's Work
  Queue returns only after every submitted task has terminated, its value is the first
  error reported by a task, and once the first error is latched no further task starts. The
  order of execution across workers is left open; the tasks run here one at a time in the
  order of submission, each when it is submitted. The producer of lines 450-544 reads
  \<open>base.RootFS.DiffIDs[i]\<close> at every index, also after an error. The worker count
  \<open>o.MaxPerRegistry\<close> is taken to be at least one, as the spec requires of the queue.\<close>

fun transferLayers ::
  "local \<Rightarrow> pkgs \<Rightarrow> registry \<Rightarrow> AppendImageOptions \<Rightarrow> DockerImageReference option \<Rightarrow>
     DockerImageReference \<Rightarrow> fromRepository \<Rightarrow> nat list \<Rightarrow> error option \<Rightarrow> state \<Rightarrow>
     unit result \<times> state"
where
  "transferLayers l p w opts from to repo [] first st =
     (case first of None \<Rightarrow> (Ok (), st) | Some err \<Rightarrow> (Err err, st))"
| "transferLayers l p w opts from to repo (i # rest) first st =
     (case missingDiffID (base st) i of
        Panic m \<Rightarrow> (Panic m, st)
      | Err err \<Rightarrow> (Err err, st)
      | Ok missing \<Rightarrow>
          if first \<noteq> None then transferLayers l p w opts from to repo rest first st
          else
            (case transferLayer l p w opts from to repo i missing st of
               (Ok u, st1) \<Rightarrow> transferLayers l p w opts from to repo rest None st1
             | (Err err, st1) \<Rightarrow> transferLayers l p w opts from to repo rest (Some err) st1
             | (Panic m, st1) \<Rightarrow> (Panic m, st1)))"

section \<open>\<open>Run\<close>: publishing\<close>

text \<open>Modelled from the spec: \<open>add.UploadSchema2Config\<close> is missing. The spec's Manifest
  Publisher marshals the finalized config, uploads it as a blob on the destination and
  records its descriptor, then builds the modern manifest from the config descriptor and the
  ordered layer descriptor list.\<close>

definition UploadSchema2Config ::
  "registry \<Rightarrow> event list \<Rightarrow> DockerImageConfig \<Rightarrow> Descriptor list \<Rightarrow>
     (error + Manifest) \<times> event list"
where
  "UploadSchema2Config w lg cfg ls =
     (case PutConfig w lg cfg of
        Inl err \<Rightarrow> (Inl err, lg @ [EvPutConfig cfg (Inl err)])
      | Inr cd \<Rightarrow> (Inr (Schema2Manifest cd ls), lg @ [EvPutConfig cfg (Inr cd)]))"

text \<open>Lines 550-559.\<close>

definition publish :: "registry \<Rightarrow> DockerImageReference \<Rightarrow> state \<Rightarrow> unit result \<times> state" where
  "publish w to st =
     (case UploadSchema2Config w (trace st) (base st) (layers st) of
        (Inl err, lg) \<Rightarrow> (Err (ErrUploadManifest err), st\<lparr>trace := lg\<rparr>)
      | (Inr manifest, lg) \<Rightarrow>
          (case putManifestInCompatibleSchema w lg manifest (Tag to) of
             Inl err \<Rightarrow>
               (Err (ErrConvertSchema err),
                st\<lparr>trace := lg @ [EvPutManifest manifest (Tag to) (Inl err)]\<rparr>)
           | Inr toDigest \<Rightarrow>
               (Ok (),
                st\<lparr>trace := lg @ [EvPutManifest manifest (Tag to) (Inr toDigest)],
                   printed := printed st @ [OutPushed toDigest to]\<rparr>)))"

section \<open>\<open>Run\<close>\<close>

text \<open>Lines 389-559: everything after the config is assembled. \<open>numLayers\<close> is the
  number of inherited layers, taken before the local ones are appended.\<close>

definition finish ::
  "local \<Rightarrow> pkgs \<Rightarrow> registry \<Rightarrow> AppendImageOptions \<Rightarrow> DockerImageReference option \<Rightarrow>
     DockerImageReference \<Rightarrow> fromRepository \<Rightarrow> state \<Rightarrow> unit result \<times> state"
where
  "finish l p w opts from to repo st =
     (let numLayers = length (layers st)
      in case appendLayers l p w opts (LayerFiles opts) st of
           (Some err, st1) \<Rightarrow> (Err err, st1)
         | (None, st1) \<Rightarrow>
             if DryRun opts then
               (Ok (), st1\<lparr>printed := printed st1 @ [OutConfigJSON (MarshalIndent l (base st1))]\<rparr>)
             else
               (case transferLayers l p w opts from to repo [0..<numLayers] None st1 of
                  (Ok u, st2) \<Rightarrow> publish w to st2
                | (Err err, st2) \<Rightarrow> (Err err, st2)
                | (Panic m, st2) \<Rightarrow> (Panic m, st2)))"

text \<open>\<open>Run\<close>: the result, the registry calls made and the lines written.\<close>

definition Run ::
  "host \<Rightarrow> local \<Rightarrow> pkgs \<Rightarrow> registry \<Rightarrow> AppendImageOptions \<Rightarrow>
     unit result \<times> event list \<times> outline list"
where
  "Run h l p w opts =
     (case parseCreatedAt h opts of
        Inl err \<Rightarrow> (Err err, [], [])
      | Inr createdAt \<Rightarrow>
     (case parseFrom p opts of
        Inl err \<Rightarrow> (Err err, [], [])
      | Inr from \<Rightarrow>
     (case parseTo p opts of
        Inl err \<Rightarrow> (Err err, [], [])
      | Inr to \<Rightarrow>
     (case connect l w opts to [] of
        (Some err, lg) \<Rightarrow> (Err err, lg, [])
      | (None, lg) \<Rightarrow>
     (case loadBase h l p w opts from lg of
        (Err err, lg1) \<Rightarrow> (Err err, lg1, [])
      | (Panic m, lg1) \<Rightarrow> (Panic m, lg1, [])
      | (Ok (b, ls, repo), lg1) \<Rightarrow>
     (case configure h l opts createdAt b of
        Inl err \<Rightarrow> (Err err, lg1, [])
      | Inr b' \<Rightarrow>
          (case finish l p w opts from to repo
                  \<lparr>trace = lg1, printed = [], base = b', layers = ls\<rparr> of
             (r, st) \<Rightarrow> (r, trace st, printed st))))))))"

section \<open>Observations on a run\<close>

text \<open>The registry calls of a run fall into four groups: those that connect and load the
  base image, those of the loop over the local layer files, those of the transfer tasks of
  the inherited layers, and the two uploads that publish the image.\<close>

datatype phase = Setup | Local | Transfer | Publish

fun originPhase :: "origin \<Rightarrow> phase" where
  "originPhase Appended = Local"
| "originPhase Inherited = Transfer"

fun phaseOf :: "event \<Rightarrow> phase" where
  "phaseOf (EvRepository s r) = Setup"
| "phaseOf (EvManifests s) = Setup"
| "phaseOf (EvTagsGet t) = Setup"
| "phaseOf (EvManifestsGet dgst) = Setup"
| "phaseOf (EvProcessManifestList dgst) = Setup"
| "phaseOf (EvBlobsGet dgst) = Setup"
| "phaseOf (EvStat dgst found) = Transfer"
| "phaseOf (EvOpen dgst) = Transfer"
| "phaseOf (EvCreate org options created) = originPhase org"
| "phaseOf (EvDigestCopy org snk r c) = originPhase org"
| "phaseOf (EvReadFrom bw r) = Transfer"
| "phaseOf (EvCommit org bw desc committed) = originPhase org"
| "phaseOf (EvPutConfig cfg put) = Publish"
| "phaseOf (EvPutManifest m t put) = Publish"

text \<open>A blob writer was asked for at the destination.\<close>

fun isCreate :: "event \<Rightarrow> bool" where
  "isCreate (EvCreate org options created) = True"
| "isCreate e = False"

text \<open>A call that writes to the destination: a blob writer is created, fed or committed,
  or the config blob or the manifest is put.\<close>

fun writesDestination :: "event \<Rightarrow> bool" where
  "writesDestination (EvCreate org options created) = True"
| "writesDestination (EvDigestCopy org (Writer bw) r c) = True"
| "writesDestination (EvReadFrom bw r) = True"
| "writesDestination (EvCommit org bw desc committed) = True"
| "writesDestination (EvPutConfig cfg put) = True"
| "writesDestination (EvPutManifest m t put) = True"
| "writesDestination e = False"

text \<open>The commit of an inherited layer came back with another digest than the layer's.\<close>

fun differentDigest :: "event \<Rightarrow> bool" where
  "differentDigest (EvCommit Inherited bw desc (Inr committed)) = (Digest committed \<noteq> Digest desc)"
| "differentDigest e = False"

text \<open>The layer lists of the manifests that were put and accepted, and the configs whose
  blobs were put.\<close>

fun publishedLayers :: "event list \<Rightarrow> Descriptor list list" where
  "publishedLayers [] = []"
| "publishedLayers (EvPutManifest (Schema2Manifest cfg ls) t (Inr dgst) # es) =
     ls # publishedLayers es"
| "publishedLayers (e # es) = publishedLayers es"

fun putConfigs :: "event list \<Rightarrow> DockerImageConfig list" where
  "putConfigs [] = []"
| "putConfigs (EvPutConfig cfg put # es) = cfg # putConfigs es"
| "putConfigs (e # es) = putConfigs es"

text \<open>The modification time that reading a local layer file reported, when it is present
  and not zero.\<close>

fun observedModTime :: "event \<Rightarrow> Time option" where
  "observedModTime (EvDigestCopy Appended snk r c) =
     (case copyModTime c of
        None \<Rightarrow> None
      | Some t \<Rightarrow> if IsZero t then None else Some t)"
| "observedModTime e = None"

text \<open>A layer descriptor that came from reading the local file \<open>arg\<close>: its digest is
  the blob digest \<open>add.DigestCopy\<close> returned for the opened file.\<close>

abbreviation layerOfFile :: "local \<Rightarrow> registry \<Rightarrow> string \<Rightarrow> Descriptor \<Rightarrow> bool" where
  "layerOfFile l w arg d \<equiv>
     (\<exists>f snk lg. osOpen l arg = Inr f \<and> MediaType d = MediaTypeLayer
         \<and> Digest d = copyBlobDigest (DigestCopy w lg snk f))"

section \<open>An example environment\<close>

text \<open>A small concrete world on which the model runs: a host \<open>linux/amd64\<close> whose regular
  expressions match literally, a reference parser that knows four references, the helpers
  of \<open>dockerlayer/add\<close> as functions that append the content digest, and registries that
  accept every upload. The source image has two layers, the first with size zero and
  already at the destination, the second without a content digest.\<close>

definition exampleParse :: "string \<Rightarrow> error + DockerImageReference" where
  "exampleParse s =
     (if s = ''bar:n'' then
        Inr \<lparr>Registry = ''r.example'', Namespace = [], Name = ''bar'', Tag = ''n'', ID = []\<rparr>
      else if s = ''bar@sha256:77'' then
        Inr \<lparr>Registry = ''r.example'', Namespace = [], Name = ''bar'', Tag = [], ID = ''sha256:77''\<rparr>
      else if s = ''foo:m'' then
        Inr \<lparr>Registry = ''q.example'', Namespace = [], Name = ''foo'', Tag = ''m'', ID = []\<rparr>
      else if s = ''foo'' then
        Inr \<lparr>Registry = ''q.example'', Namespace = [], Name = ''foo'', Tag = [], ID = []\<rparr>
      else Inl (ErrExternal ''invalid reference''))"

definition exampleAddLayer :: "DockerImageConfig \<Rightarrow> Descriptor \<Rightarrow> string \<Rightarrow> DockerImageConfig" where
  "exampleAddLayer b layer diffID =
     b\<lparr>RootFS := Some (case RootFS b of
                         None \<Rightarrow> \<lparr>Type = ''layers'', DiffIDs = [diffID]\<rparr>
                       | Some r \<Rightarrow> r\<lparr>DiffIDs := DiffIDs r @ [diffID]\<rparr>),
       ImageSize := ImageSize b + Size layer\<rparr>"

definition exampleEmptyDigest :: digest where
  "exampleEmptyDigest = ''sha256:a3ed95caeb02ffe68cdd9fd84406680ae93d633cb16422d00e8a7c22955b46d4''"

definition exampleEmptyLayer :: "byte list" where
  "exampleEmptyLayer =
     [31, 139, 8, 0, 0, 9, 110, 136, 0, 255, 98, 24, 5, 163, 96, 20,
      140, 88, 0, 8, 0, 0, 255, 255, 46, 175, 181, 239, 0, 4, 0, 0]"

definition examplePkgs :: pkgs where
  "examplePkgs =
     \<lparr>GzippedEmptyLayerDigest = exampleEmptyDigest,
      GzippedEmptyLayer = exampleEmptyLayer,
      NewEmptyConfig = zeroImageConfig\<lparr>Created := zeroTime + 1000000000,
                         ImageOS := ''linux'', ImageArchitecture := ''amd64''\<rparr>,
      AddScratchLayerToConfig =
        (\<lambda>b. (\<lparr>MediaType = MediaTypeLayer, Digest = exampleEmptyDigest, Size = 32\<rparr>,
              exampleAddLayer b
                \<lparr>MediaType = MediaTypeLayer, Digest = exampleEmptyDigest, Size = 32\<rparr>
                ''sha256:5f70bf18a086007016e948b04aed3b82103a36bea41755b6cddfaf10ace3c6ef'')),
      AddLayerToConfig = exampleAddLayer,
      Convert_V1_to_Config = (\<lambda>v b. Inr b),
      parseReference = exampleParse\<rparr>"

definition exampleHost :: host where
  "exampleHost =
     \<lparr>GOOS = ''linux'', GOARCH = ''amd64'',
      regexpCompile = (\<lambda>s. Inr (Regexp s)),
      MatchString = (\<lambda>re s. case re of Regexp pat \<Rightarrow> pat = s),
      osStatIsDir = (\<lambda>arg. Inr False),
      parseRFC3339 = (\<lambda>s. Inl (ErrExternal ''cannot parse'')),
      timeNow = 1700000000000000000\<rparr>"

definition exampleLocal :: local where
  "exampleLocal =
     \<lparr>TransportFor = (\<lambda>insecure. None),
      osOpen = (\<lambda>arg. Inr (Stream arg)),
      unmarshalConfig =
        (\<lambda>js. Inr (Some (zeroImageConfig
                 \<lparr>RootFS := Some \<lparr>Type = ''layers'', DiffIDs = [''sha256:d1'', []]\<rparr>\<rparr>))),
      unmarshalV1 = (\<lambda>js. Inr (Some (V1Image js))),
      patchImage = (\<lambda>patch c. Inr (c\<lparr>Settings := patch\<rparr>)),
      patchMeta = (\<lambda>patch b. Inr (b\<lparr>Legacy := patch\<rparr>)),
      MarshalIndent = (\<lambda>b. ''{}''),
      repoNamed = Name,
      WithDigest = (\<lambda>named dgst. Inr (named @ ''@'' @ dgst))\<rparr>"

definition exampleManifest :: Manifest where
  "exampleManifest =
     Schema2Manifest \<lparr>MediaType = MediaTypeImageConfig, Digest = ''sha256:c0'', Size = 7\<rparr>
       [\<lparr>MediaType = MediaTypeLayer, Digest = ''sha256:l1'', Size = 0\<rparr>,
        \<lparr>MediaType = MediaTypeLayer, Digest = ''sha256:l2'', Size = 20\<rparr>]"

definition exampleRegistry :: registry where
  "exampleRegistry =
     \<lparr>Repository = (\<lambda>lg s r insecure. None),
      Manifests = (\<lambda>lg s. None),
      TagsGet = (\<lambda>lg t. Inr ''sha256:src''),
      ManifestsGet = (\<lambda>lg dgst. Inr exampleManifest),
      processManifestList = (\<lambda>lg dgst m r include. Inr ([m], m, dgst)),
      BlobsGet = (\<lambda>lg dgst. Inr ''{}''),
      Stat = (\<lambda>lg dgst. if dgst = ''sha256:l1''
                then Inr \<lparr>MediaType = MediaTypeLayer, Digest = dgst, Size = 11\<rparr>
                else Inl ErrBlobUnknown),
      Open = (\<lambda>lg dgst. Inr (Stream dgst)),
      Create = (\<lambda>lg options. Inr (length lg)),
      DigestCopy = (\<lambda>lg snk r.
         \<lparr>copyLayerDigest = ''sha256:diff'', copyBlobDigest = ''sha256:blob'',
          copyModTime = Some 5000000000, copySize = 10, copyErr = None\<rparr>),
      ReadFrom = (\<lambda>lg bw r. None),
      Commit = (\<lambda>lg bw desc. Inr desc),
      PutConfig = (\<lambda>lg cfg.
         Inr \<lparr>MediaType = MediaTypeImageConfig, Digest = ''sha256:cfg'', Size = 100\<rparr>),
      putManifestInCompatibleSchema = (\<lambda>lg m t. Inr ''sha256:manifest'')\<rparr>"

definition exampleEntry :: ManifestDescriptor where
  "exampleEntry =
     \<lparr>MediaType = [], Digest = ''sha256:1'', Size = 0,
      Platform = \<lparr>Architecture = ''arm64'', OS = ''linux'', Variant = ''v8''\<rparr>\<rparr>"

text \<open>Four invocations: a layer appended to \<open>foo:m\<close>, the same as a dry run, a layer on
  the scratch base, and the latter with \<open>--created-at 1000\<close>. Then the state in which the
  transfer tasks of the first invocation start, the layer list it publishes, and a registry
  whose commits answer with another digest.\<close>

definition exampleAppend :: AppendImageOptions where
  "exampleAppend =
     NewAppendImageOptions\<lparr>From := ''foo:m'', To := ''bar:n'', LayerFiles := [''layer.tar.gz'']\<rparr>"


definition exampleScratch :: AppendImageOptions where
  "exampleScratch = NewAppendImageOptions\<lparr>To := ''bar:n'', LayerFiles := [''layer.tar.gz'']\<rparr>"

definition exampleCreatedAt :: AppendImageOptions where
  "exampleCreatedAt = exampleScratch\<lparr>CreatedAt := ''1000''\<rparr>"


definition examplePublished :: "Descriptor list" where
  "examplePublished =
     [\<lparr>MediaType = MediaTypeLayer, Digest = ''sha256:l1'', Size = 11\<rparr>,
      \<lparr>MediaType = MediaTypeLayer, Digest = ''sha256:l2'', Size = 20\<rparr>,
      \<lparr>MediaType = MediaTypeLayer, Digest = ''sha256:blob'', Size = 10\<rparr>]"




section \<open>The platform filter\<close>

lemma QuoteMeta_Nil: "QuoteMeta s = [] \<longleftrightarrow> s = []"
  by (cases s) auto

lemma Complete_default:
  assumes "FilterByOS o0 = []"
      and "Complete h False args o0 = (None, o1)"
  shows "\<exists>re. regexpCompile h (QuoteMeta (GOOS h @ ''/'' @ GOARCH h)) = Inr re
            \<and> OSFilter o1 = Some re \<and> DefaultOSFilter o1"
proof -
  have "0 < length (QuoteMeta (GOOS h @ ''/'' @ GOARCH h))"
    by (simp add: QuoteMeta_Nil)
  with assms show ?thesis
    by (auto simp: Complete_def Let_def split: sum.splits option.splits)
qed

text \<open>
  Claim C3. When \<open>--filter-by-os\<close> was not given (the flag is unchanged and the option is
  empty) and \<open>Complete\<close> succeeds, the filter is the compiled quoted \<open>GOOS/GOARCH\<close>
  pattern and it is marked as the default. For an entry \<open>d\<close> of a manifest list \<open>ms\<close>,
  with \<open>hasMultiple\<close> supplied as "the list has more than one entry": if the list has
  exactly one entry, the entry is included whatever its platform; if the list has several,
  the entry is included exactly when the filter matches its \<open>os/arch\<close> string, or
  \<open>os/arch/variant\<close> when the variant is not empty.
\<close>

theorem default_filter_single_or_match:
  assumes "FilterByOS o0 = []"
      and "Complete h False args o0 = (None, o1)"
      and "d \<in> set ms"
  shows "\<exists>re. regexpCompile h (QuoteMeta (GOOS h @ ''/'' @ GOARCH h)) = Inr re
            \<and> OSFilter o1 = Some re \<and> DefaultOSFilter o1
            \<and> (length ms = 1 \<longrightarrow> includeDescriptor h o1 d (1 < length ms))
            \<and> (1 < length ms \<longrightarrow>
                 includeDescriptor h o1 d (1 < length ms)
                   = MatchString h re (platformString (Platform d)))"
proof -
  from Complete_default [OF assms(1,2)] obtain re where
    re: "regexpCompile h (QuoteMeta (GOOS h @ ''/'' @ GOARCH h)) = Inr re"
        "OSFilter o1 = Some re" "DefaultOSFilter o1"
    by blast
  then show ?thesis
    by (auto simp: includeDescriptor_def platformString_def)
qed

theorem default_filter_single_or_match_witness:
  "FilterByOS NewAppendImageOptions = []
   \<and> Complete exampleHost False [] NewAppendImageOptions
       = (None, NewAppendImageOptions\<lparr>DefaultOSFilter := True,
                                        OSFilter := Some (Regexp ''linux/amd64'')\<rparr>)
   \<and> exampleEntry \<in> set [exampleEntry]
   \<and> includeDescriptor exampleHost
         (NewAppendImageOptions\<lparr>DefaultOSFilter := True,
                                 OSFilter := Some (Regexp ''linux/amd64'')\<rparr>)
         exampleEntry False
   \<and> \<not> includeDescriptor exampleHost
         (NewAppendImageOptions\<lparr>DefaultOSFilter := True,
                                 OSFilter := Some (Regexp ''linux/amd64'')\<rparr>)
         exampleEntry True"
proof -
  have c: "Complete exampleHost False [] NewAppendImageOptions
       = (None, NewAppendImageOptions\<lparr>DefaultOSFilter := True,
                                        OSFilter := Some (Regexp ''linux/amd64'')\<rparr>)"
    by (simp add: Complete_def exampleHost_def NewAppendImageOptions_def specialBytes_def)
  have f: "FilterByOS NewAppendImageOptions = []"
    by (simp add: NewAppendImageOptions_def)
  have one: "exampleEntry \<in> set [exampleEntry]"
    and two: "exampleEntry \<in> set [exampleEntry, exampleEntry]"
    by simp_all
  have m: "\<not> MatchString exampleHost (Regexp ''linux/amd64'') (platformString (Platform exampleEntry))"
    by (simp add: exampleHost_def platformString_def exampleEntry_def)
  from default_filter_single_or_match [OF f c one] default_filter_single_or_match [OF f c two] m
  show ?thesis using f c by auto
qed

text \<open>
  Claim C9. When \<open>--filter-by-os\<close> is given explicitly with the empty string (the flag is
  changed, the option is empty), \<open>Complete\<close> compiles nothing: \<open>OSFilter\<close> stays nil and
  \<open>DefaultOSFilter\<close> is not touched, so \<open>includeDescriptor\<close> returns true for every
  entry and either value of \<open>hasMultiple\<close>. With the flag omitted, the same options get the
  compiled quoted \<open>GOOS/GOARCH\<close> pattern as the default filter.
\<close>

theorem explicit_empty_filter_disables:
  assumes "FilterByOS o0 = []"
      and "OSFilter o0 = None"
      and "Complete h True args o0 = (r, o1)"
  shows "OSFilter o1 = None \<and> DefaultOSFilter o1 = DefaultOSFilter o0
         \<and> includeDescriptor h o1 d hasMultiple
         \<and> (\<forall>re. regexpCompile h (QuoteMeta (GOOS h @ ''/'' @ GOARCH h)) = Inr re \<longrightarrow>
                OSFilter (snd (Complete h False args o0)) = Some re
              \<and> DefaultOSFilter (snd (Complete h False args o0)))"
  using assms
  by (auto simp: Complete_def includeDescriptor_def Let_def QuoteMeta_Nil split: option.splits)

theorem explicit_empty_filter_disables_witness:
  "FilterByOS NewAppendImageOptions = [] \<and> OSFilter NewAppendImageOptions = None
   \<and> Complete exampleHost True [] NewAppendImageOptions = (None, NewAppendImageOptions)
   \<and> includeDescriptor exampleHost NewAppendImageOptions exampleEntry True
   \<and> OSFilter (snd (Complete exampleHost False [] NewAppendImageOptions))
       = Some (Regexp ''linux/amd64'')"
proof -
  have f: "FilterByOS NewAppendImageOptions = []" and n: "OSFilter NewAppendImageOptions = None"
    by (simp_all add: NewAppendImageOptions_def)
  have c: "Complete exampleHost True [] NewAppendImageOptions = (None, NewAppendImageOptions)"
    by (simp add: Complete_def NewAppendImageOptions_def)
  have q: "regexpCompile exampleHost (QuoteMeta (GOOS exampleHost @ ''/'' @ GOARCH exampleHost))
             = Inr (Regexp ''linux/amd64'')"
    by (simp add: exampleHost_def specialBytes_def)
  from explicit_empty_filter_disables [OF f n c, of exampleEntry True] q f n c
  show ?thesis by simp
qed

section \<open>The scratch repository\<close>

text \<open>
  Claim C10. \<open>Stat\<close>, \<open>Get\<close> and \<open>Open\<close> of \<open>scratchRepo\<close> serve one blob: for the
  digest of the gzipped empty layer they return the descriptor, the bytes and a reader over
  the bytes; for any other digest they return \<open>ErrBlobUnknown\<close>; they never panic.
  \<open>Named\<close>, \<open>Tags\<close>, \<open>Manifests\<close>, \<open>Put\<close>, \<open>Create\<close>, \<open>Resume\<close>, \<open>ServeBlob\<close> and
  \<open>Delete\<close> panic.
\<close>

theorem scratchRepo_serves_one_blob:
  "scratchRepo_Stat p (GzippedEmptyLayerDigest p)
     = Ok \<lparr>MediaType = ''application/vnd.docker.image.rootfs.diff.tar.gzip'',
           Digest = GzippedEmptyLayerDigest p,
           Size = of_nat (length (GzippedEmptyLayer p))\<rparr>
   \<and> scratchRepo_Get p (GzippedEmptyLayerDigest p) = Ok (GzippedEmptyLayer p)
   \<and> scratchRepo_Open p (GzippedEmptyLayerDigest p) = Ok (nopCloseBuffer (GzippedEmptyLayer p))
   \<and> (dgst \<noteq> GzippedEmptyLayerDigest p \<longrightarrow>
        scratchRepo_Stat p dgst = Err ErrBlobUnknown
      \<and> scratchRepo_Get p dgst = Err ErrBlobUnknown
      \<and> scratchRepo_Open p dgst = Err ErrBlobUnknown)
   \<and> scratchRepo_Stat p dgst \<noteq> Panic m
   \<and> scratchRepo_Get p dgst \<noteq> Panic m
   \<and> scratchRepo_Open p dgst \<noteq> Panic m
   \<and> scratchRepo_Named = Panic ''not implemented''
   \<and> scratchRepo_Tags = Panic ''not implemented''
   \<and> scratchRepo_Manifests = Panic ''not implemented''
   \<and> scratchRepo_Put mediaType bs = Panic ''not implemented''
   \<and> scratchRepo_Create = Panic ''not implemented''
   \<and> scratchRepo_Resume ident = Panic ''not implemented''
   \<and> scratchRepo_ServeBlob dgst = Panic ''not implemented''
   \<and> scratchRepo_Delete dgst = Panic ''not implemented''"
  by (simp add: scratchRepo_Stat_def scratchRepo_Get_def scratchRepo_Open_def
      scratchRepo_Named_def scratchRepo_Tags_def scratchRepo_Manifests_def scratchRepo_Put_def
      scratchRepo_Create_def scratchRepo_Resume_def scratchRepo_ServeBlob_def
      scratchRepo_Delete_def)

theorem scratchRepo_serves_one_blob_witness:
  "''sha256:l1'' \<noteq> GzippedEmptyLayerDigest examplePkgs
   \<and> scratchRepo_Stat examplePkgs ''sha256:l1'' = Err ErrBlobUnknown
   \<and> scratchRepo_Get examplePkgs ''sha256:l1'' = Err ErrBlobUnknown
   \<and> scratchRepo_Open examplePkgs ''sha256:l1'' = Err ErrBlobUnknown
   \<and> scratchRepo_Stat examplePkgs exampleEmptyDigest
       = Ok \<lparr>MediaType = MediaTypeLayer, Digest = exampleEmptyDigest, Size = 32\<rparr>"
proof -
  have d: "''sha256:l1'' \<noteq> GzippedEmptyLayerDigest examplePkgs"
    by (simp add: examplePkgs_def exampleEmptyDigest_def)
  have e: "GzippedEmptyLayerDigest examplePkgs = exampleEmptyDigest"
    and n: "of_nat (length (GzippedEmptyLayer examplePkgs)) = (32 :: int64)"
    by (simp_all add: examplePkgs_def exampleEmptyLayer_def)
  from scratchRepo_serves_one_blob [of examplePkgs "''sha256:l1''"] d e n
  show ?thesis by (simp add: MediaTypeLayer_def)
qed

section \<open>Validation of the references\<close>

text \<open>
  Claim C8. If the \<open>--to\<close> reference parses to a reference with an ID, \<open>Run\<close> returns an
  error; if a \<open>--from\<close> reference is given and parses to a reference with neither tag nor
  ID, \<open>Run\<close> returns an error. In both cases no registry call has been made.
\<close>

theorem reference_validation:
  "(parseReference p (To opts) = Inr to \<and> length (ID to) > 0 \<longrightarrow>
      parseTo p opts = Inl ErrToByID \<and> (\<exists>err. Run h l p w opts = (Err err, [], [])))
   \<and> (length (From opts) > 0 \<and> parseReference p (From opts) = Inr src
        \<and> length (Tag src) = 0 \<and> length (ID src) = 0 \<longrightarrow>
      parseFrom p opts = Inl ErrFromNoTagOrID \<and> (\<exists>err. Run h l p w opts = (Err err, [], [])))"
  by (auto simp: Run_def parseTo_def parseFrom_def split: sum.splits)

theorem reference_validation_witness:
  "parseReference examplePkgs (To (NewAppendImageOptions\<lparr>To := ''bar@sha256:77''\<rparr>))
     = Inr \<lparr>Registry = ''r.example'', Namespace = [], Name = ''bar'', Tag = [], ID = ''sha256:77''\<rparr>
   \<and> Run exampleHost exampleLocal examplePkgs exampleRegistry
         (NewAppendImageOptions\<lparr>To := ''bar@sha256:77''\<rparr>) = (Err ErrToByID, [], [])
   \<and> parseReference examplePkgs (From (NewAppendImageOptions\<lparr>From := ''foo'', To := ''bar:n''\<rparr>))
     = Inr \<lparr>Registry = ''q.example'', Namespace = [], Name = ''foo'', Tag = [], ID = []\<rparr>
   \<and> Run exampleHost exampleLocal examplePkgs exampleRegistry
         (NewAppendImageOptions\<lparr>From := ''foo'', To := ''bar:n''\<rparr>) = (Err ErrFromNoTagOrID, [], [])"
proof -
  let ?t = "\<lparr>Registry = ''r.example'', Namespace = [], Name = ''bar'', Tag = [], ID = ''sha256:77''\<rparr>"
  let ?s = "\<lparr>Registry = ''q.example'', Namespace = [], Name = ''foo'', Tag = [], ID = []\<rparr>"
  have t: "parseReference examplePkgs (To (NewAppendImageOptions\<lparr>To := ''bar@sha256:77''\<rparr>)) = Inr ?t"
    and s: "parseReference examplePkgs (From (NewAppendImageOptions\<lparr>From := ''foo'', To := ''bar:n''\<rparr>)) = Inr ?s"
    by (simp_all add: examplePkgs_def exampleParse_def NewAppendImageOptions_def)
  have c: "parseCreatedAt exampleHost (NewAppendImageOptions\<lparr>To := ''bar@sha256:77''\<rparr>) = Inr None"
    "parseCreatedAt exampleHost (NewAppendImageOptions\<lparr>From := ''foo'', To := ''bar:n''\<rparr>) = Inr None"
    "parseFrom examplePkgs (NewAppendImageOptions\<lparr>To := ''bar@sha256:77''\<rparr>) = Inr None"
    by (simp_all add: parseCreatedAt_def parseFrom_def NewAppendImageOptions_def)
  from reference_validation [where p = examplePkgs and to = ?t and src = ?s and h = exampleHost
      and l = exampleLocal and w = exampleRegistry
      and opts = "NewAppendImageOptions\<lparr>To := ''bar@sha256:77''\<rparr>"] t c
  have 1: "Run exampleHost exampleLocal examplePkgs exampleRegistry
         (NewAppendImageOptions\<lparr>To := ''bar@sha256:77''\<rparr>) = (Err ErrToByID, [], [])"
    by (auto simp: Run_def)
  from reference_validation [where p = examplePkgs and to = ?t and src = ?s and h = exampleHost
      and l = exampleLocal and w = exampleRegistry
      and opts = "NewAppendImageOptions\<lparr>From := ''foo'', To := ''bar:n''\<rparr>"] s c
  have 2: "Run exampleHost exampleLocal examplePkgs exampleRegistry
         (NewAppendImageOptions\<lparr>From := ''foo'', To := ''bar:n''\<rparr>) = (Err ErrFromNoTagOrID, [], [])"
    by (auto simp: Run_def NewAppendImageOptions_def)
  from 1 2 t s show ?thesis by simp
qed

section \<open>Effects of the phases of \<open>Run\<close>\<close>

text \<open>What each phase appends to the calls made, and what it leaves unchanged.\<close>

lemma map_filter_append:
  "List.map_filter f (xs @ ys) = List.map_filter f xs @ List.map_filter f ys"
  by (induction xs) (simp_all add: List.map_filter_simps split: option.splits)

lemma last_cons_append: "last (t # xs @ ys) = last (last (t # xs) # ys)"
  by (cases ys) simp_all

lemma patchSize_simps [simp]:
  "trace (patchSize i desc st) = trace st"
  "printed (patchSize i desc st) = printed st"
  "base (patchSize i desc st) = base st"
  "length (layers (patchSize i desc st)) = length (layers st)"
  "map Digest (layers (patchSize i desc st)) = map Digest (layers st)"
  "map MediaType (layers (patchSize i desc st)) = map MediaType (layers st)"
  by (cases "i < length (layers st)";
      simp add: patchSize_def map_update list_update_same_conv list_update_beyond)+

lemma patchSize_Digest [simp]:
  "Digest (layers (patchSize i desc st) ! j) = Digest (layers st ! j)"
  by (cases "i < length (layers st)"; cases "i = j")
     (simp_all add: patchSize_def list_update_beyond)


lemma setDiffID_Created: "setDiffID i v b = Ok b' \<Longrightarrow> Created b' = Created b"
  by (auto simp: setDiffID_def split: option.splits if_splits)


lemma fromBlobsOpen_trace:
  "fromBlobsOpen p w repo dgst lg = (r, lg') \<Longrightarrow>
   (\<exists>evs. lg' = lg @ evs \<and> set evs \<subseteq> {EvOpen dgst})"
  by (auto simp: fromBlobsOpen_def split: fromRepository.splits)

lemma copyBlob_effect:
  assumes "copyBlob w i missing bw r st = (res, st')"
  shows "layers st' = layers st \<and> printed st' = printed st
       \<and> Created (base st') = Created (base st)
       \<and> (\<exists>evs. trace st' = trace st @ evs \<and> (\<forall>e \<in> set evs. phaseOf e = Transfer)
               \<and> (\<forall>e \<in> set evs. \<not> differentDigest e))"
  using assms
  by (auto simp: copyBlob_def Let_def setDiffID_Created split: if_splits option.splits result.splits)

lemma commitLayer_effect:
  assumes "commitLayer w i bw st = (res, st')"
  shows "\<exists>committed.
           map Digest (layers st') = map Digest (layers st)
         \<and> map MediaType (layers st') = map MediaType (layers st)
         \<and> length (layers st') = length (layers st)
         \<and> base st' = base st
         \<and> trace st' = trace st @ [EvCommit Inherited bw (layers st ! i) committed]
         \<and> (res = Ok () \<longrightarrow> \<not> differentDigest (EvCommit Inherited bw (layers st ! i) committed))
         \<and> (differentDigest (EvCommit Inherited bw (layers st ! i) committed) \<longrightarrow>
               (\<exists>a b. res = Err (ErrDifferentDigest a b)))"
  using assms
  by (auto simp: commitLayer_def Let_def split: sum.splits if_splits)

lemma contentID_effect:
  assumes "contentID p w repo i st = (r, st')"
  shows "layers st' = layers st \<and> printed st' = printed st
       \<and> Created (base st') = Created (base st)
       \<and> (\<exists>evs. trace st' = trace st @ evs
             \<and> (\<forall>e \<in> set evs. e = EvOpen (Digest (layers st ! i))
                    \<or> (\<exists>rd c. e = EvDigestCopy Inherited Discard rd c)))
       \<and> (r = Ok () \<longrightarrow>
             (\<exists>rd c. EvDigestCopy Inherited Discard rd c \<in> set (trace st')
                 \<and> setDiffID i (copyLayerDigest c) (base st) = Ok (base st')))
       \<and> (r \<noteq> Ok () \<longrightarrow> base st' = base st)"
proof (cases "fromBlobsOpen p w repo (Digest (layers st ! i)) (trace st)")
  case (Pair ro lg)
  from fromBlobsOpen_trace [OF Pair] obtain evs where
    evs: "lg = trace st @ evs" "set evs \<subseteq> {EvOpen (Digest (layers st ! i))}" by blast
  show ?thesis
  proof (cases ro)
    case (Ok rd)
    with assms Pair evs show ?thesis
      by (auto simp: contentID_def Let_def setDiffID_Created split: option.splits result.splits) blast
  next
    case (Err e)
    with assms Pair evs show ?thesis by (auto simp: contentID_def)
  next
    case (Panic m)
    with assms Pair evs show ?thesis by (auto simp: contentID_def)
  qed
qed


lemma contentID_phase:
  assumes "contentID p w repo i st = (r, st')"
  shows "\<exists>evs. trace st' = trace st @ evs \<and> (\<forall>e \<in> set evs. phaseOf e = Transfer)
            \<and> (\<forall>e \<in> set evs. \<not> differentDigest e) \<and> (\<forall>e \<in> set evs. \<not> isCreate e)"
proof -
  from contentID_effect [OF assms] obtain evs where
    "trace st' = trace st @ evs"
    "\<forall>e \<in> set evs. e = EvOpen (Digest (layers st ! i))
                    \<or> (\<exists>rd c. e = EvDigestCopy Inherited Discard rd c)"
    by blast
  then show ?thesis by (intro exI [of _ evs]) auto
qed

lemma uploadLayer_effect:
  assumes "uploadLayer l p w from to repo i missing st = (r, st')"
  shows "map Digest (layers st') = map Digest (layers st)
       \<and> map MediaType (layers st') = map MediaType (layers st)
       \<and> length (layers st') = length (layers st)
       \<and> Created (base st') = Created (base st)
       \<and> (\<exists>evs. trace st' = trace st @ evs \<and> (\<forall>e \<in> set evs. phaseOf e = Transfer)
             \<and> (r = Ok () \<longrightarrow> (\<forall>e \<in> set evs. \<not> differentDigest e)
                              \<and> (\<exists>e \<in> set evs. isCreate e))
             \<and> ((\<exists>e \<in> set evs. differentDigest e) \<longrightarrow> (\<exists>a b. r = Err (ErrDifferentDigest a b))))"
proof (cases "fromBlobsOpen p w repo (Digest (layers st ! i)) (trace st)")
  case (Pair ro lg)
  from fromBlobsOpen_trace [OF Pair] obtain ev1 where
    ev1: "lg = trace st @ ev1" "set ev1 \<subseteq> {EvOpen (Digest (layers st ! i))}" by blast
  then have ev1p: "\<forall>e \<in> set ev1. phaseOf e = Transfer \<and> \<not> differentDigest e" by auto
  show ?thesis
  proof (cases ro)
    case (Err e)
    with assms Pair ev1 ev1p show ?thesis by (auto simp: uploadLayer_def)
  next
    case (Panic m)
    with assms Pair ev1 ev1p show ?thesis by (auto simp: uploadLayer_def)
  next
    case (Ok rd)
    show ?thesis
    proof (cases "mountOptions l from to repo (layers st ! i)")
      case (Err e)
      with assms Pair Ok ev1 ev1p show ?thesis by (auto simp: uploadLayer_def)
    next
      case (Panic m)
      with assms Pair Ok ev1 ev1p show ?thesis by (auto simp: uploadLayer_def)
    next
      case mo: (Ok options)
      show ?thesis
      proof (cases "Create w lg options")
        case (Inl e)
        with assms Pair Ok mo ev1 ev1p show ?thesis by (auto simp: uploadLayer_def Let_def)
      next
        case (Inr bw)
        define st1 where "st1 = st\<lparr>trace := lg @ [EvCreate Inherited options (Inr bw)],
            printed := printed st @ [if 0 <s Size (layers st ! i)
                                     then OutUploadingSize (Size (layers st ! i))
                                     else OutUploadingUnknown]\<rparr>"
        obtain rc st2 where cb: "copyBlob w i missing bw rd st1 = (rc, st2)"
          by (cases "copyBlob w i missing bw rd st1")
        from copyBlob_effect [OF cb] obtain ev2 where
          c2: "layers st2 = layers st1" "Created (base st2) = Created (base st1)"
              "trace st2 = trace st1 @ ev2" "\<forall>e \<in> set ev2. phaseOf e = Transfer"
              "\<forall>e \<in> set ev2. \<not> differentDigest e"
          by blast
        have up: "uploadLayer l p w from to repo i missing st =
            (case rc of Ok u \<Rightarrow> commitLayer w i bw st2
                      | Err err \<Rightarrow> (Err err, st2) | Panic m \<Rightarrow> (Panic m, st2))"
          using Pair Ok mo Inr cb
          by (simp add: uploadLayer_def Let_def st1_def split: result.splits)
        have s1: "layers st1 = layers st" "base st1 = base st"
          "trace st1 = trace st @ ev1 @ [EvCreate Inherited options (Inr bw)]"
          by (simp_all add: st1_def ev1)
        show ?thesis
        proof (cases rc)
          case (Err e)
          with up assms c2 s1 ev1p show ?thesis
            by (intro conjI exI [of _ "ev1 @ [EvCreate Inherited options (Inr bw)] @ ev2"]) auto
        next
          case (Panic m)
          with up assms c2 s1 ev1p show ?thesis
            by (intro conjI exI [of _ "ev1 @ [EvCreate Inherited options (Inr bw)] @ ev2"]) auto
        next
          case (Ok u)
          with up assms have cl: "commitLayer w i bw st2 = (r, st')" by simp
          from commitLayer_effect [OF cl] obtain committed where
            c3: "map Digest (layers st') = map Digest (layers st2)"
                "map MediaType (layers st') = map MediaType (layers st2)"
                "length (layers st') = length (layers st2)" "base st' = base st2"
                "trace st' = trace st2 @ [EvCommit Inherited bw (layers st2 ! i) committed]"
                "r = Ok () \<longrightarrow> \<not> differentDigest (EvCommit Inherited bw (layers st2 ! i) committed)"
                "differentDigest (EvCommit Inherited bw (layers st2 ! i) committed) \<longrightarrow>
                  (\<exists>a b. r = Err (ErrDifferentDigest a b))"
            by (elim conjE exE) (rule that)
          with c2 s1 ev1p show ?thesis
            by (intro conjI exI [of _ "ev1 @ [EvCreate Inherited options (Inr bw)] @ ev2
                  @ [EvCommit Inherited bw (layers st2 ! i) committed]"]) auto
        qed
      qed
    qed
  qed
qed

lemma skipProbe_effect:
  assumes "skipProbe p w opts repo i missing st = (ro, st')"
  shows "map Digest (layers st') = map Digest (layers st)
       \<and> map MediaType (layers st') = map MediaType (layers st)
       \<and> length (layers st') = length (layers st)
       \<and> Created (base st') = Created (base st)
       \<and> (\<exists>evs. trace st' = trace st @ evs \<and> (\<forall>e \<in> set evs. phaseOf e = Transfer)
               \<and> (\<forall>e \<in> set evs. \<not> differentDigest e))"
proof (cases "Force opts")
  case True
  with assms show ?thesis by (simp add: skipProbe_def)
next
  case False
  show ?thesis
  proof (cases "Stat w (trace st) (Digest (layers st ! i))")
    case (Inl e)
    with assms False show ?thesis by (auto simp: skipProbe_def Let_def)
  next
    case (Inr desc)
    define st1 where
      "st1 = patchSize i desc (st\<lparr>trace := trace st @ [EvStat (Digest (layers st ! i)) (Inr desc)]\<rparr>)"
    show ?thesis
    proof (cases missing)
      case m: False
      with assms False Inr show ?thesis
        by (auto simp: skipProbe_def Let_def split: if_splits)
    next
      case m: True
      obtain rc st2 where c: "contentID p w repo i st1 = (rc, st2)"
        by (cases "contentID p w repo i st1")
      from contentID_phase [OF c] obtain evs where
        e: "trace st2 = trace st1 @ evs" "\<forall>e \<in> set evs. phaseOf e = Transfer"
           "\<forall>e \<in> set evs. \<not> differentDigest e"
        by blast
      from contentID_effect [OF c] have
        f: "layers st2 = layers st1" "Created (base st2) = Created (base st1)" by simp_all
      have "st' = st2"
        using assms False Inr m c
        by (auto simp: skipProbe_def Let_def st1_def [symmetric] split: result.splits if_splits)
      with e f show ?thesis
        by (intro conjI exI [of _ "EvStat (Digest (layers st ! i)) (Inr desc) # evs"])
           (auto simp: st1_def)
    qed
  qed
qed

lemma transferLayer_effect:
  assumes "transferLayer l p w opts from to repo i missing st = (r, st')"
  shows "map Digest (layers st') = map Digest (layers st)
       \<and> map MediaType (layers st') = map MediaType (layers st)
       \<and> length (layers st') = length (layers st)
       \<and> Created (base st') = Created (base st)
       \<and> (\<exists>evs. trace st' = trace st @ evs \<and> (\<forall>e \<in> set evs. phaseOf e = Transfer)
             \<and> (r = Ok () \<longrightarrow> (\<forall>e \<in> set evs. \<not> differentDigest e))
             \<and> ((\<exists>e \<in> set evs. differentDigest e) \<longrightarrow> (\<exists>a b. r = Err (ErrDifferentDigest a b))))"
proof -
  obtain ro st1 where sp: "skipProbe p w opts repo i missing st = (ro, st1)"
    by (cases "skipProbe p w opts repo i missing st")
  from skipProbe_effect [OF sp] obtain ev1 where
    s: "map Digest (layers st1) = map Digest (layers st)"
       "map MediaType (layers st1) = map MediaType (layers st)"
       "length (layers st1) = length (layers st)"
       "Created (base st1) = Created (base st)"
       "trace st1 = trace st @ ev1" "\<forall>e \<in> set ev1. phaseOf e = Transfer"
       "\<forall>e \<in> set ev1. \<not> differentDigest e"
    by (elim conjE exE)
  show ?thesis
  proof (cases ro)
    case (Some r1)
    with assms sp have "r = r1" "st' = st1" by (simp_all add: transferLayer_def)
    with s show ?thesis by (intro conjI exI [of _ ev1]) auto
  next
    case None
    with assms sp have up: "uploadLayer l p w from to repo i missing st1 = (r, st')"
      by (simp add: transferLayer_def)
    from uploadLayer_effect [OF up] obtain ev2 where
      u: "map Digest (layers st') = map Digest (layers st1)"
         "map MediaType (layers st') = map MediaType (layers st1)"
         "length (layers st') = length (layers st1)"
         "Created (base st') = Created (base st1)"
         "trace st' = trace st1 @ ev2" "\<forall>e \<in> set ev2. phaseOf e = Transfer"
         "r = Ok () \<longrightarrow> (\<forall>e \<in> set ev2. \<not> differentDigest e) \<and> (\<exists>e \<in> set ev2. isCreate e)"
         "(\<exists>e \<in> set ev2. differentDigest e) \<longrightarrow> (\<exists>a b. r = Err (ErrDifferentDigest a b))"
      by (elim conjE exE)
    with s show ?thesis by (intro conjI exI [of _ "ev1 @ ev2"]) auto
  qed
qed

lemma transferLayers_effect:
  assumes "transferLayers l p w opts from to repo idx first st = (r, st')"
  shows "map Digest (layers st') = map Digest (layers st)
       \<and> map MediaType (layers st') = map MediaType (layers st)
       \<and> length (layers st') = length (layers st)
       \<and> Created (base st') = Created (base st)
       \<and> (\<exists>evs. trace st' = trace st @ evs \<and> (\<forall>e \<in> set evs. phaseOf e = Transfer)
             \<and> (r = Ok () \<longrightarrow> first = None \<and> (\<forall>e \<in> set evs. \<not> differentDigest e)))"
  using assms
proof (induction idx arbitrary: first st)
  case Nil
  then show ?case by (auto split: option.splits)
next
  case (Cons i rest)
  show ?case
  proof (cases "missingDiffID (base st) i")
    case (Err e)
    with Cons.prems show ?thesis by auto
  next
    case (Panic m)
    with Cons.prems show ?thesis by auto
  next
    case (Ok missing)
    show ?thesis
    proof (cases first)
      case (Some e0)
      with Cons.prems Ok have "transferLayers l p w opts from to repo rest first st = (r, st')"
        by simp
      from Cons.IH [OF this] Some show ?thesis by simp
    next
      case None
      obtain r1 st1 where t: "transferLayer l p w opts from to repo i missing st = (r1, st1)"
        by (cases "transferLayer l p w opts from to repo i missing st")
      from transferLayer_effect [OF t] obtain ev1 where
        s: "map Digest (layers st1) = map Digest (layers st)"
           "map MediaType (layers st1) = map MediaType (layers st)"
           "length (layers st1) = length (layers st)"
           "Created (base st1) = Created (base st)"
           "trace st1 = trace st @ ev1" "\<forall>e \<in> set ev1. phaseOf e = Transfer"
           "r1 = Ok () \<longrightarrow> (\<forall>e \<in> set ev1. \<not> differentDigest e)"
        by (elim conjE exE)
      show ?thesis
      proof (cases r1)
        case (Panic m)
        with Cons.prems Ok None t have "r = Panic m" "st' = st1" by simp_all
        with s show ?thesis by (intro conjI exI [of _ ev1]) auto
      next
        case (Err e1)
        with Cons.prems Ok None t
        have "transferLayers l p w opts from to repo rest (Some e1) st1 = (r, st')" by simp
        from Cons.IH [OF this] obtain ev2 where
          "map Digest (layers st') = map Digest (layers st1)"
          "map MediaType (layers st') = map MediaType (layers st1)"
          "length (layers st') = length (layers st1)"
          "Created (base st') = Created (base st1)"
          "trace st' = trace st1 @ ev2" "\<forall>e \<in> set ev2. phaseOf e = Transfer"
          "r = Ok () \<longrightarrow> Some e1 = None \<and> (\<forall>e \<in> set ev2. \<not> differentDigest e)"
          by (elim conjE exE)
        with s show ?thesis by (intro conjI exI [of _ "ev1 @ ev2"]) auto
      next
        case ok: (Ok u)
        with Cons.prems Ok None t
        have "transferLayers l p w opts from to repo rest None st1 = (r, st')" by simp
        from Cons.IH [OF this] obtain ev2 where
          "map Digest (layers st') = map Digest (layers st1)"
          "map MediaType (layers st') = map MediaType (layers st1)"
          "length (layers st') = length (layers st1)"
          "Created (base st') = Created (base st1)"
          "trace st' = trace st1 @ ev2" "\<forall>e \<in> set ev2. phaseOf e = Transfer"
          "r = Ok () \<longrightarrow> (None :: error option) = None \<and> (\<forall>e \<in> set ev2. \<not> differentDigest e)"
          by (elim conjE exE)
        with s ok None show ?thesis by (intro conjI exI [of _ "ev1 @ ev2"]) auto
      qed
    qed
  qed
qed

lemma publish_effect:
  assumes "publish w to st = (r, st')"
  shows "base st' = base st \<and> layers st' = layers st
       \<and> (\<exists>evs. trace st' = trace st @ evs \<and> (\<forall>e \<in> set evs. phaseOf e = Publish)
             \<and> (\<forall>e \<in> set evs. \<not> differentDigest e)
             \<and> (\<forall>e \<in> set evs. observedModTime e = None)
             \<and> set (publishedLayers evs) \<subseteq> {layers st}
             \<and> set (putConfigs evs) \<subseteq> {base st}
             \<and> (r = Ok () \<longrightarrow> publishedLayers evs = [layers st] \<and> putConfigs evs = [base st]))"
  using assms
  by (auto simp: publish_def UploadSchema2Config_def split: sum.splits)

lemma publishedLayers_append:
  "publishedLayers (xs @ ys) = publishedLayers xs @ publishedLayers ys"
  by (induction xs rule: publishedLayers.induct) simp_all

lemma putConfigs_append: "putConfigs (xs @ ys) = putConfigs xs @ putConfigs ys"
  by (induction xs rule: putConfigs.induct) simp_all

lemma publishedLayers_phase:
  "\<forall>e \<in> set evs. phaseOf e \<noteq> Publish \<Longrightarrow> publishedLayers evs = []"
  by (induction evs rule: publishedLayers.induct) simp_all

lemma putConfigs_phase:
  "\<forall>e \<in> set evs. phaseOf e \<noteq> Publish \<Longrightarrow> putConfigs evs = []"
  by (induction evs rule: putConfigs.induct) simp_all

lemma observedModTime_phase: "phaseOf e \<noteq> Local \<Longrightarrow> observedModTime e = None"
  by (cases e rule: observedModTime.cases) simp_all

lemma map_filter_phase:
  "\<forall>e \<in> set evs. phaseOf e \<noteq> Local \<Longrightarrow> List.map_filter observedModTime evs = []"
  by (induction evs) (simp_all add: List.map_filter_simps observedModTime_phase)


lemma digestLayer_effect:
  assumes "digestLayer p w snk f st = (desc, st')"
  shows "trace st' = trace st @ [EvDigestCopy Appended snk f (DigestCopy w (trace st) snk f)]
       \<and> layers st' = layers st @ [desc] \<and> printed st' = printed st
       \<and> MediaType desc = MediaTypeLayer
       \<and> Digest desc = copyBlobDigest (DigestCopy w (trace st) snk f)
       \<and> ((\<forall>b d s. Created (AddLayerToConfig p b d s) = Created b) \<longrightarrow>
            Created (base st')
              = last (Created (base st)
                  # List.map_filter observedModTime
                      [EvDigestCopy Appended snk f (DigestCopy w (trace st) snk f)]))"
  using assms
  by (auto simp: digestLayer_def Let_def List.map_filter_simps split: option.splits)

lemma appendLayer_effect:
  assumes "appendLayer l p w opts arg st = (r, st')"
  shows "\<exists>evs new. trace st' = trace st @ evs \<and> layers st' = layers st @ new
          \<and> (\<forall>e \<in> set evs. phaseOf e = Local)
          \<and> (DryRun opts \<longrightarrow> (\<forall>e \<in> set evs. \<not> writesDestination e) \<and> printed st' = printed st)
          \<and> (r = None \<longrightarrow> (\<exists>d. new = [d] \<and> layerOfFile l w arg d))
          \<and> ((\<forall>b d s. Created (AddLayerToConfig p b d s) = Created b) \<longrightarrow>
               Created (base st') = last (Created (base st) # List.map_filter observedModTime evs))"
proof (cases "osOpen l arg")
  case (Inl e)
  with assms show ?thesis
    by (intro exI [of _ "[]"]) (auto simp: appendLayer_def List.map_filter_simps)
next
  case (Inr f)
  show ?thesis
  proof (cases "DryRun opts")
    case True
    obtain desc st1 where d: "digestLayer p w Discard f st = (desc, st1)"
      by (cases "digestLayer p w Discard f st")
    with assms Inr True have "st' = st1" "r = None" by (simp_all add: appendLayer_def)
    with digestLayer_effect [OF d] Inr True show ?thesis
      by (intro exI [of _ "[EvDigestCopy Appended Discard f (DigestCopy w (trace st) Discard f)]"]
                exI [of _ "[desc]"]) auto
  next
    case False
    show ?thesis
    proof (cases "Create w (trace st) []")
      case (Inl e)
      with assms Inr False show ?thesis
        by (intro exI [of _ "[EvCreate Appended [] (Inl e)]"] exI [of _ "[]"])
           (auto simp: appendLayer_def Let_def List.map_filter_simps)
    next
      case cr: (Inr bw)
      define st2 where "st2 = st\<lparr>printed := printed st @ [OutUploading],
                                  trace := trace st @ [EvCreate Appended [] (Inr bw)]\<rparr>"
      obtain desc st3 where d: "digestLayer p w (Writer bw) f st2 = (desc, st3)"
        by (cases "digestLayer p w (Writer bw) f st2")
      define ev where "ev = EvDigestCopy Appended (Writer bw) f (DigestCopy w (trace st2) (Writer bw) f)"
      from digestLayer_effect [OF d] have
        s3: "trace st3 = trace st @ [EvCreate Appended [] (Inr bw), ev]"
            "layers st3 = layers st @ [desc]" "MediaType desc = MediaTypeLayer"
            "Digest desc = copyBlobDigest (DigestCopy w (trace st2) (Writer bw) f)"
            "(\<forall>b d s. Created (AddLayerToConfig p b d s) = Created b) \<longrightarrow>
               Created (base st3) = last (Created (base st) # List.map_filter observedModTime [ev])"
        by (simp_all add: st2_def ev_def)
      define cm where "cm = Commit w (trace st3) bw desc"
      have r: "appendLayer l p w opts arg st =
          (case cm of Inl err \<Rightarrow> Some err | Inr d \<Rightarrow> None,
           st3\<lparr>trace := trace st3 @ [EvCommit Appended bw desc cm],
               printed := printed st3 @ [case cm of Inl err \<Rightarrow> OutFailed | Inr d \<Rightarrow> OutRate desc]\<rparr>)"
        using Inr False cr d
        by (simp add: appendLayer_def Let_def st2_def cm_def split: sum.splits)
      with assms have st': "st' = st3\<lparr>trace := trace st3 @ [EvCommit Appended bw desc cm],
               printed := printed st3 @ [case cm of Inl err \<Rightarrow> OutFailed | Inr d \<Rightarrow> OutRate desc]\<rparr>"
        by simp
      let ?evs = "[EvCreate Appended [] (Inr bw), ev, EvCommit Appended bw desc cm]"
      have mf: "List.map_filter observedModTime ?evs = List.map_filter observedModTime [ev]"
        by (simp add: List.map_filter_simps split: option.splits)
      have ph: "phaseOf ev = Local" by (simp add: ev_def)
      have b': "base st' = base st3" by (simp add: st')
      show ?thesis
      proof (intro exI [of _ ?evs] exI [of _ "[desc]"] conjI)
        show "trace st' = trace st @ ?evs" by (simp add: st' s3)
        show "layers st' = layers st @ [desc]" by (simp add: st' s3)
        show "\<forall>e \<in> set ?evs. phaseOf e = Local" using ph by simp
        show "DryRun opts \<longrightarrow> (\<forall>e \<in> set ?evs. \<not> writesDestination e) \<and> printed st' = printed st"
          using False by simp
        show "r = None \<longrightarrow> (\<exists>d. [desc] = [d] \<and> layerOfFile l w arg d)"
          using Inr s3(3,4) by auto
        show "(\<forall>b d s. Created (AddLayerToConfig p b d s) = Created b) \<longrightarrow>
               Created (base st') = last (Created (base st) # List.map_filter observedModTime ?evs)"
          unfolding mf b' by (rule s3(5))
      qed
    qed
  qed
qed

lemma appendLayers_effect:
  assumes "appendLayers l p w opts args st = (r, st')"
  shows "\<exists>evs new. trace st' = trace st @ evs \<and> layers st' = layers st @ new
          \<and> (\<forall>e \<in> set evs. phaseOf e = Local)
          \<and> (DryRun opts \<longrightarrow> (\<forall>e \<in> set evs. \<not> writesDestination e) \<and> printed st' = printed st)
          \<and> (r = None \<longrightarrow> list_all2 (layerOfFile l w) args new)
          \<and> ((\<forall>b d s. Created (AddLayerToConfig p b d s) = Created b) \<longrightarrow>
               Created (base st') = last (Created (base st) # List.map_filter observedModTime evs))"
  using assms
proof (induction args arbitrary: st)
  case Nil
  then show ?case by (intro exI [of _ "[]"]) (auto simp: List.map_filter_simps)
next
  case (Cons arg args)
  obtain r1 st1 where a: "appendLayer l p w opts arg st = (r1, st1)"
    by (cases "appendLayer l p w opts arg st")
  from appendLayer_effect [OF a] obtain ev1 new1 where
    e1: "trace st1 = trace st @ ev1" "layers st1 = layers st @ new1"
        "\<forall>e \<in> set ev1. phaseOf e = Local"
        "DryRun opts \<longrightarrow> (\<forall>e \<in> set ev1. \<not> writesDestination e) \<and> printed st1 = printed st"
        "r1 = None \<longrightarrow> (\<exists>d. new1 = [d] \<and> layerOfFile l w arg d)"
        "(\<forall>b d s. Created (AddLayerToConfig p b d s) = Created b) \<longrightarrow>
               Created (base st1) = last (Created (base st) # List.map_filter observedModTime ev1)"
    by (elim conjE exE)
  show ?case
  proof (cases r1)
    case (Some e)
    with Cons.prems a have "r = Some e" "st' = st1" by simp_all
    with e1 show ?thesis by (intro exI [of _ ev1] exI [of _ new1]) auto
  next
    case None
    with Cons.prems a have "appendLayers l p w opts args st1 = (r, st')" by simp
    from Cons.IH [OF this] obtain ev2 new2 where
      e2: "trace st' = trace st1 @ ev2" "layers st' = layers st1 @ new2"
          "\<forall>e \<in> set ev2. phaseOf e = Local"
          "DryRun opts \<longrightarrow> (\<forall>e \<in> set ev2. \<not> writesDestination e) \<and> printed st' = printed st1"
          "r = None \<longrightarrow> list_all2 (layerOfFile l w) args new2"
          "(\<forall>b d s. Created (AddLayerToConfig p b d s) = Created b) \<longrightarrow>
               Created (base st') = last (Created (base st1) # List.map_filter observedModTime ev2)"
      by (elim conjE exE)
    from e1(5) None obtain d where d: "new1 = [d]" "layerOfFile l w arg d" by blast
    have cr: "(\<forall>b d s. Created (AddLayerToConfig p b d s) = Created b) \<longrightarrow>
               Created (base st') = last (Created (base st) # List.map_filter observedModTime (ev1 @ ev2))"
      using e1(6) e2(6) by (simp add: map_filter_append last_cons_append)
    show ?thesis
      using e1(1-4) e2(1-5) d cr
      by (intro exI [of _ "ev1 @ ev2"] exI [of _ "d # new2"]) auto
  qed
qed

lemma connect_trace:
  assumes "connect l w opts to lg = (r, lg')"
  shows "\<exists>evs. lg' = lg @ evs \<and> (\<forall>e \<in> set evs. phaseOf e = Setup)"
  using assms by (auto simp: connect_def split: option.splits)

lemma resolveSource_trace:
  assumes "resolveSource h w opts fr lg = (r, lg')"
  shows "\<exists>evs. lg' = lg @ evs \<and> (\<forall>e \<in> set evs. phaseOf e = Setup)"
  using assms
  by (auto simp: resolveSource_def sourceDigest_def split: option.splits sum.splits if_splits prod.splits)

lemma loadSchema2_effect:
  assumes "loadSchema2 l w cfg ls lg = (r, lg')"
  shows "(\<exists>evs. lg' = lg @ evs \<and> (\<forall>e \<in> set evs. phaseOf e = Setup))
       \<and> (\<forall>b ls'. r = Ok (b, ls') \<longrightarrow> ls' = ls)"
  using assms
  by (auto simp: loadSchema2_def split: option.splits sum.splits if_splits)

lemma schema1Layers_snd:
  "n \<le> length fs \<Longrightarrow>
   snd (schema1Layers p fs n b ls)
     = ls @ map (\<lambda>s. \<lparr>MediaType = MediaTypeLayer, Digest = s, Size = 0\<rparr>) (rev (take n fs))"
proof (induction n arbitrary: b ls)
  case 0
  then show ?case by simp
next
  case (Suc n)
  then have "n < length fs" by simp
  then have "take (Suc n) fs = take n fs @ [fs ! n]" by (rule take_Suc_conv_app_nth)
  with Suc show ?case by (simp add: Let_def)
qed

lemma loadSchema1_layers:
  assumes "loadSchema1 l p hist fs = Ok (b, ls)"
  shows "ls = map (\<lambda>s. \<lparr>MediaType = MediaTypeLayer, Digest = s, Size = 0\<rparr>) (rev fs)"
proof -
  from assms obtain b0 where "schema1Layers p fs (length fs) b0 [] = (b, ls)"
    by (auto simp: loadSchema1_def split: if_splits sum.splits)
  then have "ls = snd (schema1Layers p fs (length fs) b0 [])" by simp
  then show ?thesis by (simp add: schema1Layers_snd)
qed

lemma loadBase_effect:
  assumes "loadBase h l p w opts from lg = (r, lg')"
  shows "(\<exists>evs. lg' = lg @ evs \<and> (\<forall>e \<in> set evs. phaseOf e = Setup))
       \<and> (\<forall>b ls repo. r = Ok (b, ls, repo) \<longrightarrow>
            (from = None \<and> repo = scratchRepo
               \<and> ls = [fst (AddScratchLayerToConfig p (NewEmptyConfig p))])
          \<or> (\<exists>fr lg1 cfg. from = Some fr
               \<and> resolveSource h w opts fr lg = (Inr (Schema2Manifest cfg ls), lg1))
          \<or> (\<exists>fr lg1 hist fs. from = Some fr
               \<and> resolveSource h w opts fr lg = (Inr (Schema1Manifest hist fs), lg1)
               \<and> ls = map (\<lambda>s. \<lparr>MediaType = MediaTypeLayer, Digest = s, Size = 0\<rparr>) (rev fs)))"
proof (cases "from")
  case None
  with assms show ?thesis by (auto simp: loadBase_def split: prod.splits)
next
  case (Some fr)
  obtain rm lg1 where rs: "resolveSource h w opts fr lg = (rm, lg1)"
    by (cases "resolveSource h w opts fr lg")
  from resolveSource_trace [OF rs] obtain ev1 where
    e1: "lg1 = lg @ ev1" "\<forall>e \<in> set ev1. phaseOf e = Setup" by blast
  show ?thesis
  proof (cases rm)
    case (Inl e)
    with assms Some rs e1 show ?thesis by (auto simp: loadBase_def)
  next
    case (Inr m)
    show ?thesis
    proof (cases m)
      case (OtherManifest t)
      with assms Some rs e1 Inr show ?thesis by (auto simp: loadBase_def)
    next
      case (Schema1Manifest hist fs)
      with assms Some rs e1 Inr show ?thesis
        by (auto simp: loadBase_def dest: loadSchema1_layers split: result.splits)
    next
      case (Schema2Manifest cfg ls0)
      obtain r2 lg2 where l2: "loadSchema2 l w cfg ls0 lg1 = (r2, lg2)"
        by (cases "loadSchema2 l w cfg ls0 lg1")
      from loadSchema2_effect [OF l2] obtain ev2 where
        e2: "lg2 = lg1 @ ev2" "\<forall>e \<in> set ev2. phaseOf e = Setup"
            "\<forall>b ls'. r2 = Ok (b, ls') \<longrightarrow> ls' = ls0"
        by blast
      have "lg' = lg2"
        using assms Some rs Inr Schema2Manifest l2
        by (auto simp: loadBase_def split: result.splits)
      moreover have "\<forall>b ls repo. r = Ok (b, ls, repo) \<longrightarrow> ls = ls0"
        using assms Some rs Inr Schema2Manifest l2 e2(3)
        by (auto simp: loadBase_def split: result.splits)
      ultimately show ?thesis
        using e1 e2 Some rs Inr Schema2Manifest
        by (intro conjI exI [of _ "ev1 @ ev2"]) auto
    qed
  qed
qed

lemma finish_effect:
  assumes "finish l p w opts from to repo st = (r, st')"
  shows "\<exists>evl evr new.
          trace st' = trace st @ evl @ evr
        \<and> (\<forall>e \<in> set evl. phaseOf e = Local)
        \<and> (\<forall>e \<in> set evr. phaseOf e = Transfer \<or> phaseOf e = Publish)
        \<and> (DryRun opts \<longrightarrow> evr = [] \<and> (\<forall>e \<in> set evl. \<not> writesDestination e)
              \<and> (r = Ok () \<longrightarrow>
                    printed st' = printed st @ [OutConfigJSON (MarshalIndent l (base st'))]))
        \<and> ((\<forall>b d s. Created (AddLayerToConfig p b d s) = Created b) \<longrightarrow>
              Created (base st') = last (Created (base st) # List.map_filter observedModTime evl))
        \<and> set (putConfigs evr) \<subseteq> {base st'}
        \<and> ((\<exists>e \<in> set evr. differentDigest e) \<longrightarrow> r \<noteq> Ok () \<and> publishedLayers evr = [])
        \<and> (\<forall>ls \<in> set (publishedLayers evr).
              length ls = length (layers st) + length new
            \<and> map Digest ls = map Digest (layers st @ new)
            \<and> map MediaType ls = map MediaType (layers st @ new)
            \<and> list_all2 (layerOfFile l w) (LayerFiles opts) new)"
proof -
  obtain ra st1 where a: "appendLayers l p w opts (LayerFiles opts) st = (ra, st1)"
    by (cases "appendLayers l p w opts (LayerFiles opts) st")
  from appendLayers_effect [OF a] obtain evl new where
    e1: "trace st1 = trace st @ evl" "layers st1 = layers st @ new"
        "\<forall>e \<in> set evl. phaseOf e = Local"
        "DryRun opts \<longrightarrow> (\<forall>e \<in> set evl. \<not> writesDestination e) \<and> printed st1 = printed st"
        "ra = None \<longrightarrow> list_all2 (layerOfFile l w) (LayerFiles opts) new"
        "(\<forall>b d s. Created (AddLayerToConfig p b d s) = Created b) \<longrightarrow>
               Created (base st1) = last (Created (base st) # List.map_filter observedModTime evl)"
    by (elim conjE exE)
  show ?thesis
  proof (cases ra)
    case (Some e)
    with assms a have re: "r = Err e" "st' = st1" by (simp_all add: finish_def)
    show ?thesis
      apply (rule exI [of _ evl], rule exI [of _ "[]"], rule exI [of _ new])
      using e1 re by simp
  next
    case None
    show ?thesis
    proof (cases "DryRun opts")
      case True
      with assms a None have re: "r = Ok ()"
        "st' = st1\<lparr>printed := printed st1 @ [OutConfigJSON (MarshalIndent l (base st1))]\<rparr>"
        by (simp_all add: finish_def)
      show ?thesis
        apply (rule exI [of _ evl], rule exI [of _ "[]"], rule exI [of _ new])
        using e1 True re by simp
    next
      case False
      obtain rt st2 where
        t: "transferLayers l p w opts from to repo [0..<length (layers st)] None st1 = (rt, st2)"
        by (cases "transferLayers l p w opts from to repo [0..<length (layers st)] None st1")
      from transferLayers_effect [OF t] obtain evt where
        e2: "map Digest (layers st2) = map Digest (layers st1)"
            "map MediaType (layers st2) = map MediaType (layers st1)"
            "length (layers st2) = length (layers st1)"
            "Created (base st2) = Created (base st1)"
            "trace st2 = trace st1 @ evt" "\<forall>e \<in> set evt. phaseOf e = Transfer"
            "rt = Ok () \<longrightarrow> (\<forall>e \<in> set evt. \<not> differentDigest e)"
        by (elim conjE exE) simp
      have pt: "publishedLayers evt = []" "putConfigs evt = []"
        using e2(6) by (simp_all add: publishedLayers_phase putConfigs_phase)
      show ?thesis
      proof (cases rt)
        case (Err e)
        with assms a None False t have re: "r = Err e" "st' = st2"
          by (simp_all add: finish_def Let_def)
        show ?thesis
          apply (rule exI [of _ evl], rule exI [of _ evt], rule exI [of _ new])
          using e1 e2 pt False re by auto
      next
        case (Panic m)
        with assms a None False t have re: "r = Panic m" "st' = st2"
          by (simp_all add: finish_def Let_def)
        show ?thesis
          apply (rule exI [of _ evl], rule exI [of _ evt], rule exI [of _ new])
          using e1 e2 pt False re by auto
      next
        case (Ok u)
        with assms a None False t have pb: "publish w to st2 = (r, st')"
          by (simp add: finish_def Let_def)
        from publish_effect [OF pb] obtain evp where
          e3: "base st' = base st2" "layers st' = layers st2"
              "trace st' = trace st2 @ evp" "\<forall>e \<in> set evp. phaseOf e = Publish"
              "\<forall>e \<in> set evp. \<not> differentDigest e"
              "set (publishedLayers evp) \<subseteq> {layers st2}"
              "set (putConfigs evp) \<subseteq> {base st2}"
          by (elim conjE exE)
        have nd: "\<forall>e \<in> set (evt @ evp). \<not> differentDigest e"
          using e2(7) e3(5) Ok by auto
        have pl: "\<forall>ls \<in> set (publishedLayers (evt @ evp)). ls = layers st2"
          using e3(6) pt by (auto simp: publishedLayers_append)
        have pc: "set (putConfigs (evt @ evp)) \<subseteq> {base st'}"
          using e3(7) e3(1) pt by (auto simp: putConfigs_append)
        show ?thesis
        proof (rule exI [of _ evl], rule exI [of _ "evt @ evp"], rule exI [of _ new], intro conjI)
          show "trace st' = trace st @ evl @ evt @ evp" by (simp add: e3 e2 e1)
          show "\<forall>e \<in> set evl. phaseOf e = Local" by (rule e1(3))
          show "\<forall>e \<in> set (evt @ evp). phaseOf e = Transfer \<or> phaseOf e = Publish"
            using e2(6) e3(4) by auto
          show "DryRun opts \<longrightarrow> evt @ evp = [] \<and> (\<forall>e \<in> set evl. \<not> writesDestination e)
              \<and> (r = Ok () \<longrightarrow>
                    printed st' = printed st @ [OutConfigJSON (MarshalIndent l (base st'))])"
            using False by simp
          show "(\<forall>b d s. Created (AddLayerToConfig p b d s) = Created b) \<longrightarrow>
              Created (base st') = last (Created (base st) # List.map_filter observedModTime evl)"
            using e1(6) e2(4) e3(1) by simp
          show "set (putConfigs (evt @ evp)) \<subseteq> {base st'}" by (rule pc)
          show "(\<exists>e \<in> set (evt @ evp). differentDigest e) \<longrightarrow>
                  r \<noteq> Ok () \<and> publishedLayers (evt @ evp) = []"
            using nd by blast
          show "\<forall>ls \<in> set (publishedLayers (evt @ evp)).
              length ls = length (layers st) + length new
            \<and> map Digest ls = map Digest (layers st @ new)
            \<and> map MediaType ls = map MediaType (layers st @ new)
            \<and> list_all2 (layerOfFile l w) (LayerFiles opts) new"
            using pl e2(1-3) e1(2,5) None by auto
        qed
      qed
    qed
  qed
qed

lemma originPhase_simps [simp]:
  "originPhase org \<noteq> Setup" "originPhase org \<noteq> Publish"
  by (cases org; simp)+


lemma Run_cases:
  assumes "Run h l p w opts = (r, lg, out)"
  shows "(r \<noteq> Ok () \<and> (\<forall>e \<in> set lg. phaseOf e = Setup) \<and> out = [])
       \<or> (\<exists>createdAt from to lgc lg0 b ls repo b' st'.
            parseCreatedAt h opts = Inr createdAt \<and> parseFrom p opts = Inr from
          \<and> parseTo p opts = Inr to
          \<and> (\<forall>e \<in> set lg0. phaseOf e = Setup)
          \<and> loadBase h l p w opts from lgc = (Ok (b, ls, repo), lg0)
          \<and> configure h l opts createdAt b = Inr b'
          \<and> finish l p w opts from to repo \<lparr>trace = lg0, printed = [], base = b', layers = ls\<rparr>
               = (r, st')
          \<and> lg = trace st' \<and> out = printed st')"
proof (cases "parseCreatedAt h opts")
  case (Inl e)
  with assms show ?thesis by (auto simp: Run_def)
next
  case ca: (Inr createdAt)
  show ?thesis
  proof (cases "parseFrom p opts")
    case (Inl e)
    with assms ca show ?thesis by (auto simp: Run_def)
  next
    case fr: (Inr "from")
    show ?thesis
    proof (cases "parseTo p opts")
      case (Inl e)
      with assms ca fr show ?thesis by (auto simp: Run_def)
    next
      case to: (Inr to)
      obtain rc lgc where c: "connect l w opts to [] = (rc, lgc)"
        by (cases "connect l w opts to []")
      from connect_trace [OF c] have sc: "\<forall>e \<in> set lgc. phaseOf e = Setup" by auto
      show ?thesis
      proof (cases rc)
        case (Some e)
        with assms ca fr to c sc show ?thesis by (auto simp: Run_def)
      next
        case None
        obtain rb lg0 where lb: "loadBase h l p w opts from lgc = (rb, lg0)"
          by (cases "loadBase h l p w opts from lgc")
        from loadBase_effect [OF lb] sc have s0: "\<forall>e \<in> set lg0. phaseOf e = Setup" by auto
        show ?thesis
        proof (cases rb)
          case (Err e)
          with assms ca fr to c None lb s0 show ?thesis by (auto simp: Run_def)
        next
          case (Panic m)
          with assms ca fr to c None lb s0 show ?thesis by (auto simp: Run_def)
        next
          case (Ok x)
          obtain b ls repo where x: "x = (b, ls, repo)" by (cases x)
          show ?thesis
          proof (cases "configure h l opts createdAt b")
            case (Inl e)
            with assms ca fr to c None lb s0 Ok x show ?thesis by (auto simp: Run_def)
          next
            case (Inr b')
            obtain rf st' where f: "finish l p w opts from to repo
                  \<lparr>trace = lg0, printed = [], base = b', layers = ls\<rparr> = (rf, st')"
              by (cases "finish l p w opts from to repo
                  \<lparr>trace = lg0, printed = [], base = b', layers = ls\<rparr>")
            with assms ca fr to c None lb Ok x Inr
            have "r = rf" "lg = trace st'" "out = printed st'" by (simp_all add: Run_def)
            with ca fr to s0 lb Ok x Inr f show ?thesis by blast
          qed
        qed
      qed
    qed
  qed
qed

lemma map_nth_eq: "map f xs = map f ys \<Longrightarrow> i < length xs \<Longrightarrow> f (xs ! i) = f (ys ! i)"
  by (metis length_map nth_map)

lemma layerOfFile_cong:
  assumes "list_all2 (layerOfFile l w) args new"
      and "map Digest new' = map Digest new"
      and "map MediaType new' = map MediaType new"
  shows "list_all2 (layerOfFile l w) args new'"
proof -
  have len: "length new' = length new" using assms(2) by (metis length_map)
  have "\<forall>i < length new'. Digest (new' ! i) = Digest (new ! i) \<and> MediaType (new' ! i) = MediaType (new ! i)"
    using assms(2,3) by (auto dest: map_nth_eq)
  with assms(1) len show ?thesis
    by (auto simp: list_all2_conv_all_nth)
qed

lemma Run_finish:
  assumes "Run h l p w opts = (r, lg, out)"
      and "\<not> (\<forall>e \<in> set lg. phaseOf e = Setup) \<or> r = Ok ()"
  obtains createdAt "from" to lgc lg0 b ls repo b' st' where
    "parseCreatedAt h opts = Inr createdAt" "parseFrom p opts = Inr from"
    "parseTo p opts = Inr to" "\<forall>e \<in> set lg0. phaseOf e = Setup"
    "loadBase h l p w opts from lgc = (Ok (b, ls, repo), lg0)"
    "configure h l opts createdAt b = Inr b'"
    "finish l p w opts from to repo \<lparr>trace = lg0, printed = [], base = b', layers = ls\<rparr>
       = (r, st')"
    "lg = trace st'" "out = printed st'"
  using Run_cases [OF assms(1)] assms(2) by blast

lemma Run_published:
  assumes "Run h l p w opts = (r, lg, out)"
      and "ls \<in> set (publishedLayers lg)"
  shows "\<exists>from lgc lg0 b ls0 repo new.
           parseFrom p opts = Inr from
         \<and> loadBase h l p w opts from lgc = (Ok (b, ls0, repo), lg0)
         \<and> length ls = length ls0 + length new
         \<and> map Digest ls = map Digest (ls0 @ new)
         \<and> map MediaType ls = map MediaType (ls0 @ new)
         \<and> list_all2 (layerOfFile l w) (LayerFiles opts) new"
proof -
  from assms(2) have "publishedLayers lg \<noteq> []" by auto
  then have "\<not> (\<forall>e \<in> set lg. phaseOf e \<noteq> Publish)"
    using publishedLayers_phase [of lg] by blast
  then have "\<not> (\<forall>e \<in> set lg. phaseOf e = Setup) \<or> r = Ok ()"
    by (metis phase.distinct(5))
  with assms(1) show ?thesis
  proof (rule Run_finish)
    fix createdAt "from" to lgc lg0 b ls0 repo b' st'
    assume pf: "parseFrom p opts = Inr from"
      and s0: "\<forall>e \<in> set lg0. phaseOf e = Setup"
      and lb: "loadBase h l p w opts from lgc = (Ok (b, ls0, repo), lg0)"
      and f0: "finish l p w opts from to repo \<lparr>trace = lg0, printed = [], base = b', layers = ls0\<rparr>
             = (r, st')"
      and lg: "lg = trace st'"
    define st0 where "st0 = \<lparr>trace = lg0, printed = [], base = b', layers = ls0\<rparr>"
    have st0: "trace st0 = lg0" "layers st0 = ls0" by (simp_all add: st0_def)
    have f: "finish l p w opts from to repo st0 = (r, st')" using f0 by (simp add: st0_def)
    from finish_effect [OF f] obtain evl evr new where
      e: "trace st' = trace st0 @ evl @ evr" "\<forall>e \<in> set evl. phaseOf e = Local"
         "\<forall>ls \<in> set (publishedLayers evr).
              length ls = length (layers st0) + length new
            \<and> map Digest ls = map Digest (layers st0 @ new)
            \<and> map MediaType ls = map MediaType (layers st0 @ new)
            \<and> list_all2 (layerOfFile l w) (LayerFiles opts) new"
      by (elim conjE exE)
    have "publishedLayers (lg0 @ evl) = []"
      using s0 e(2) by (intro publishedLayers_phase) auto
    then have "publishedLayers lg = publishedLayers evr"
      using lg e(1) st0 publishedLayers_append [of "lg0 @ evl" evr] by simp
    with assms(2) e(3) st0 have
      "length ls = length ls0 + length new
       \<and> map Digest ls = map Digest (ls0 @ new)
       \<and> map MediaType ls = map MediaType (ls0 @ new)
       \<and> list_all2 (layerOfFile l w) (LayerFiles opts) new"
      by simp
    with pf lb show ?thesis by blast
  qed
qed

lemma split_published:
  assumes "length ls = length ls0 + length new"
      and "map Digest ls = map Digest (ls0 @ new)"
      and "map MediaType ls = map MediaType (ls0 @ new)"
      and "list_all2 (layerOfFile l w) args new"
  shows "map Digest (take (length ls0) ls) = map Digest ls0
       \<and> list_all2 (layerOfFile l w) args (drop (length ls0) ls)"
proof -
  have d: "map Digest (take (length ls0) ls) = map Digest ls0"
    "map Digest (drop (length ls0) ls) = map Digest new"
    using assms(2) by (simp_all flip: take_map drop_map)
  have m: "map MediaType (drop (length ls0) ls) = map MediaType new"
    using assms(3) by (simp flip: drop_map)
  from layerOfFile_cong [OF assms(4) d(2) m] d(1) show ?thesis by simp
qed

section \<open>The transfer of an inherited layer\<close>





section \<open>Dry run\<close>



section \<open>The layers of the published manifest\<close>

text \<open>
  Claim C4. The layer list of every published manifest is the inherited layers followed by
  the new ones. The new ones come from the local files, one for each, in the order of
  \<open>o.LayerFiles\<close>. The digests of the inherited ones are, in order: the digest of the
  scratch layer when \<open>--from\<close> is empty; the digests of the layers of the source manifest
  when it is of the modern schema; the reverse of the blob sums of \<open>FSLayers\<close> when it is
  of the legacy signed schema.
\<close>

theorem layer_order_is_stable:
  assumes "Run h l p w opts = (r, lg, out)"
      and "ls \<in> set (publishedLayers lg)"
  shows "\<exists>inherited new.
           ls = inherited @ new
         \<and> list_all2 (layerOfFile l w) (LayerFiles opts) new
         \<and> ((From opts = []
               \<and> map Digest inherited = [Digest (fst (AddScratchLayerToConfig p (NewEmptyConfig p)))])
            \<or> (\<exists>fr lgc lg1 cfg src.
                  parseFrom p opts = Inr (Some fr)
                \<and> resolveSource h w opts fr lgc = (Inr (Schema2Manifest cfg src), lg1)
                \<and> map Digest inherited = map Digest src)
            \<or> (\<exists>fr lgc lg1 hist fs.
                  parseFrom p opts = Inr (Some fr)
                \<and> resolveSource h w opts fr lgc = (Inr (Schema1Manifest hist fs), lg1)
                \<and> map Digest inherited = rev fs))"
proof -
  from Run_published [OF assms] obtain "from" lgc lg0 b ls0 repo new where
    pf: "parseFrom p opts = Inr from"
    and lb: "loadBase h l p w opts from lgc = (Ok (b, ls0, repo), lg0)"
    and n: "length ls = length ls0 + length new"
      "map Digest ls = map Digest (ls0 @ new)"
      "map MediaType ls = map MediaType (ls0 @ new)"
      "list_all2 (layerOfFile l w) (LayerFiles opts) new"
    by (elim conjE exE)
  from split_published [OF n] have
    sp: "map Digest (take (length ls0) ls) = map Digest ls0"
        "list_all2 (layerOfFile l w) (LayerFiles opts) (drop (length ls0) ls)"
    by simp_all
  from loadBase_effect [OF lb] have src:
    "(from = None \<and> ls0 = [fst (AddScratchLayerToConfig p (NewEmptyConfig p))])
     \<or> (\<exists>fr lg1 cfg. from = Some fr
           \<and> resolveSource h w opts fr lgc = (Inr (Schema2Manifest cfg ls0), lg1))
     \<or> (\<exists>fr lg1 hist fs. from = Some fr
           \<and> resolveSource h w opts fr lgc = (Inr (Schema1Manifest hist fs), lg1)
           \<and> ls0 = map (\<lambda>s. \<lparr>MediaType = MediaTypeLayer, Digest = s, Size = 0\<rparr>) (rev fs))"
    by blast
  have none: "from = None \<Longrightarrow> From opts = []"
    using pf by (auto simp: parseFrom_def split: if_splits sum.splits)
  have s1: "map Digest (map (\<lambda>s. \<lparr>MediaType = MediaTypeLayer, Digest = s, Size = 0\<rparr>) xs) = xs" for xs
    by (induction xs) simp_all
  show ?thesis
  proof (rule exI [of _ "take (length ls0) ls"], rule exI [of _ "drop (length ls0) ls"], intro conjI)
    show "ls = take (length ls0) ls @ drop (length ls0) ls" by simp
    show "list_all2 (layerOfFile l w) (LayerFiles opts) (drop (length ls0) ls)" by (rule sp(2))
    from src show "(From opts = []
               \<and> map Digest (take (length ls0) ls)
                    = [Digest (fst (AddScratchLayerToConfig p (NewEmptyConfig p)))])
            \<or> (\<exists>fr lgc lg1 cfg src.
                  parseFrom p opts = Inr (Some fr)
                \<and> resolveSource h w opts fr lgc = (Inr (Schema2Manifest cfg src), lg1)
                \<and> map Digest (take (length ls0) ls) = map Digest src)
            \<or> (\<exists>fr lgc lg1 hist fs.
                  parseFrom p opts = Inr (Some fr)
                \<and> resolveSource h w opts fr lgc = (Inr (Schema1Manifest hist fs), lg1)
                \<and> map Digest (take (length ls0) ls) = rev fs)"
    proof (elim disjE conjE exE)
      assume "from = None" "ls0 = [fst (AddScratchLayerToConfig p (NewEmptyConfig p))]"
      with none sp(1) show ?thesis by simp
    next
      fix fr lg1 cfg
      assume "from = Some fr" "resolveSource h w opts fr lgc = (Inr (Schema2Manifest cfg ls0), lg1)"
      with pf sp(1) show ?thesis by blast
    next
      fix fr lg1 hist fs
      assume "from = Some fr"
        "resolveSource h w opts fr lgc = (Inr (Schema1Manifest hist fs), lg1)"
        "ls0 = map (\<lambda>s. \<lparr>MediaType = MediaTypeLayer, Digest = s, Size = 0\<rparr>) (rev fs)"
      with pf sp(1) s1 [of "rev fs"] have
        "parseFrom p opts = Inr (Some fr)
         \<and> resolveSource h w opts fr lgc = (Inr (Schema1Manifest hist fs), lg1)
         \<and> map Digest (take (length ls0) ls) = rev fs"
        by simp
      then show ?thesis by blast
    qed
  qed
qed

theorem layer_order_is_stable_witness:
  "examplePublished
     \<in> set (publishedLayers
          (fst (snd (Run exampleHost exampleLocal examplePkgs exampleRegistry exampleAppend))))
   \<and> (\<exists>inherited new.
         examplePublished = inherited @ new
       \<and> list_all2 (layerOfFile exampleLocal exampleRegistry) (LayerFiles exampleAppend) new)"
proof -
  let ?R = "Run exampleHost exampleLocal examplePkgs exampleRegistry exampleAppend"
  have 1: "?R = (fst ?R, fst (snd ?R), snd (snd ?R))" by simp
  have "publishedLayers (fst (snd ?R)) = [examplePublished]" by code_simp
  then have 2: "examplePublished \<in> set (publishedLayers (fst (snd ?R)))" by simp
  from layer_order_is_stable [OF 1 2] 2
  show ?thesis by blast
qed

text \<open>Claim C6 as stated, one layer in the manifest, fails on the example: with the scratch
  base and one local layer file the run succeeds and publishes a manifest of two layers.\<close>

theorem scratch_one_layer_counterexample:
  "From exampleScratch = [] \<and> LayerFiles exampleScratch = [''layer.tar.gz'']
   \<and> fst (Run exampleHost exampleLocal examplePkgs exampleRegistry exampleScratch) = Ok ()
   \<and> map length (publishedLayers
        (fst (snd (Run exampleHost exampleLocal examplePkgs exampleRegistry exampleScratch))))
       = [2]"
  by code_simp

text \<open>
  Claim C6, as amended. With \<open>--from\<close> empty and one local layer file, every published
  manifest has exactly two layers: the scratch layer first, then the layer read from the
  file.
\<close>

theorem scratch_keeps_the_empty_layer:
  assumes "Run h l p w opts = (r, lg, out)"
      and "From opts = []"
      and "LayerFiles opts = [arg]"
      and "ls \<in> set (publishedLayers lg)"
  shows "length ls = 2
       \<and> Digest (ls ! 0) = Digest (fst (AddScratchLayerToConfig p (NewEmptyConfig p)))
       \<and> layerOfFile l w arg (ls ! 1)"
proof -
  from Run_published [OF assms(1,4)] obtain "from" lgc lg0 b ls0 repo new where
    pf: "parseFrom p opts = Inr from"
    and lb: "loadBase h l p w opts from lgc = (Ok (b, ls0, repo), lg0)"
    and n: "length ls = length ls0 + length new"
      "map Digest ls = map Digest (ls0 @ new)"
      "map MediaType ls = map MediaType (ls0 @ new)"
      "list_all2 (layerOfFile l w) (LayerFiles opts) new"
    by (elim conjE exE)
  from pf assms(2) have "from = None" by (simp add: parseFrom_def)
  with lb have ls0: "ls0 = [fst (AddScratchLayerToConfig p (NewEmptyConfig p))]"
    by (auto simp: loadBase_def split: prod.splits)
  from split_published [OF n] ls0 assms(3) have
    sp: "map Digest (take 1 ls) = [Digest (fst (AddScratchLayerToConfig p (NewEmptyConfig p)))]"
        "list_all2 (layerOfFile l w) [arg] (drop 1 ls)"
    by simp_all
  from n(1,4) ls0 assms(3) have len: "length ls = 2" by (auto simp: list_all2_Cons1)
  then obtain x y where xy: "ls = [x, y]"
    by (metis (no_types) One_nat_def Suc_1 length_0_conv length_Suc_conv)
  with sp show ?thesis by simp
qed

theorem scratch_keeps_the_empty_layer_witness:
  "From exampleScratch = [] \<and> LayerFiles exampleScratch = [''layer.tar.gz'']
   \<and> [\<lparr>MediaType = MediaTypeLayer, Digest = exampleEmptyDigest, Size = 32\<rparr>,
       \<lparr>MediaType = MediaTypeLayer, Digest = ''sha256:blob'', Size = 10\<rparr>]
       \<in> set (publishedLayers
            (fst (snd (Run exampleHost exampleLocal examplePkgs exampleRegistry exampleScratch))))
   \<and> Digest (fst (AddScratchLayerToConfig examplePkgs (NewEmptyConfig examplePkgs)))
       = exampleEmptyDigest"
proof -
  let ?R = "Run exampleHost exampleLocal examplePkgs exampleRegistry exampleScratch"
  let ?ls = "[\<lparr>MediaType = MediaTypeLayer, Digest = exampleEmptyDigest, Size = 32\<rparr>,
              \<lparr>MediaType = MediaTypeLayer, Digest = ''sha256:blob'', Size = 10\<rparr>]"
  have 1: "?R = (fst ?R, fst (snd ?R), snd (snd ?R))" by simp
  have 2: "From exampleScratch = []" and 3: "LayerFiles exampleScratch = [''layer.tar.gz'']"
    by code_simp+
  have "publishedLayers (fst (snd ?R)) = [?ls]" by code_simp
  then have 4: "?ls \<in> set (publishedLayers (fst (snd ?R)))" by simp
  from scratch_keeps_the_empty_layer [OF 1 2 3 4] 2 3 4
  show ?thesis by simp
qed

section \<open>The creation time\<close>

text \<open>
  Claim C5. When \<open>--created-at\<close> is given, the \<open>Created\<close> field of the image is set from it
  (the help of the flag calls it the creation date for this image, and lines 193-205 and
  365-369 parse it and assign it); a modification time that is not zero, observed while
  reading an appended local layer, supersedes the creation time only when no explicit
  timestamp was given.

  \<open>Run\<close> does not keep to this. Lines 429-431 assign the modification time to \<open>Created\<close>
  without testing whether \<open>--created-at\<close> was given. On the example, \<open>--created-at 1000\<close>
  parses to one second after the epoch, the one local layer reports a modification time of
  five seconds after the epoch, the command succeeds, and the one config it uploads has
  \<open>Created\<close> at five seconds after the epoch, not at the explicit timestamp.
\<close>

theorem explicit_timestamp_is_overwritten:
  "CreatedAt exampleCreatedAt = ''1000''
   \<and> parseCreatedAt exampleHost exampleCreatedAt = Inr (Some 1000000000)
   \<and> fst (Run exampleHost exampleLocal examplePkgs exampleRegistry exampleCreatedAt) = Ok ()
   \<and> List.map_filter observedModTime
        (fst (snd (Run exampleHost exampleLocal examplePkgs exampleRegistry exampleCreatedAt)))
       = [5000000000]
   \<and> map Created (putConfigs
        (fst (snd (Run exampleHost exampleLocal examplePkgs exampleRegistry exampleCreatedAt))))
       = [5000000000]"
  by code_simp

end
